theory Spec2Isabelle
  imports Complex_Main
begin

section \<open>JavaScript numbers\<close>

text \<open>
  A JavaScript \<^verbatim>\<open>number\<close> is an IEEE double: a finite value, one of the two
  infinities, or NaN. Finite values are modelled as reals (every finite double is a
  real; the two zeros are identified). \<^verbatim>\<open>Math.max\<close> and \<^verbatim>\<open>Math.min\<close>
  return one of their arguments and never round, so nothing is lost for them. The
  product of two numbers is rounded to the nearest double, as the operator
  \<^verbatim>\<open>*\<close> does.
\<close>

datatype number = NaN | NegInf | Fin real | PosInf

text \<open>The operator \<^verbatim>\<open><\<close> on numbers: false as soon as one side is NaN.\<close>

fun num_less :: "number \<Rightarrow> number \<Rightarrow> bool" where
  "num_less NaN _ = False"
| "num_less _ NaN = False"
| "num_less NegInf NegInf = False"
| "num_less NegInf _ = True"
| "num_less (Fin a) (Fin b) = (a < b)"
| "num_less (Fin a) PosInf = True"
| "num_less (Fin a) NegInf = False"
| "num_less PosInf _ = False"

text \<open>\<^verbatim>\<open>Math.max(a, b)\<close> and \<^verbatim>\<open>Math.min(a, b)\<close>: NaN if either argument is NaN.\<close>

definition Math_max :: "number \<Rightarrow> number \<Rightarrow> number" where
  "Math_max a b = (if a = NaN \<or> b = NaN then NaN else if num_less a b then b else a)"

definition Math_min :: "number \<Rightarrow> number \<Rightarrow> number" where
  "Math_min a b = (if a = NaN \<or> b = NaN then NaN else if num_less b a then b else a)"

text \<open>The sign of a number that is not NaN, used by the product below.\<close>

fun num_sign :: "number \<Rightarrow> int" where
  "num_sign NaN = 0"
| "num_sign NegInf = - 1"
| "num_sign PosInf = 1"
| "num_sign (Fin a) = (if a < 0 then - 1 else if a = 0 then 0 else 1)"

text \<open>
  Rounding a real to a double. \<open>expo x\<close> is the binary exponent of a positive
  \<open>x\<close>: the integer \<open>e\<close> with \<open>2 powi e \<le> x < 2 powi (e + 1)\<close>, found by halving
  or doubling \<open>x\<close> until it lies between 1 and 2.
\<close>

function expo :: "real \<Rightarrow> int" where
  "expo x =
     (if 2 \<le> x then expo (x / 2) + 1
      else if 0 < x \<and> x < 1 then expo (2 * x) - 1
      else 0)"
  by pat_completeness auto
termination
proof (relation "measure (\<lambda>x. if 1 \<le> x then nat \<lfloor>x\<rfloor> else nat \<lfloor>1 / x\<rfloor> + 1)")
  show "wf (measure (\<lambda>x::real. if 1 \<le> x then nat \<lfloor>x\<rfloor> else nat \<lfloor>1 / x\<rfloor> + 1))"
    by simp
next
  fix x :: real
  assume "2 \<le> x"
  then have "\<lfloor>x / 2\<rfloor> < \<lfloor>x\<rfloor>" and "0 < \<lfloor>x\<rfloor>"
    by linarith+
  with \<open>2 \<le> x\<close>
  show "(x / 2, x) \<in> measure (\<lambda>x. if 1 \<le> x then nat \<lfloor>x\<rfloor> else nat \<lfloor>1 / x\<rfloor> + 1)"
    by simp
next
  fix x :: real
  assume "\<not> 2 \<le> x" and "0 < x \<and> x < 1"
  then have x: "0 < x" "x < 1" by simp_all
  show "(2 * x, x) \<in> measure (\<lambda>x. if 1 \<le> x then nat \<lfloor>x\<rfloor> else nat \<lfloor>1 / x\<rfloor> + 1)"
  proof (cases "1 \<le> 2 * x")
    case True
    with x have "\<lfloor>2 * x\<rfloor> = 1" by linarith
    moreover from x have "1 < 1 / x" by simp
    then have "1 \<le> \<lfloor>1 / x\<rfloor>" by linarith
    ultimately show ?thesis using True x by simp
  next
    case False
    with x have "2 < 1 / x" by (simp add: field_simps)
    have "1 / (2 * x) = (1 / x) / 2" by simp
    with \<open>2 < 1 / x\<close> have "\<lfloor>1 / (2 * x)\<rfloor> < \<lfloor>1 / x\<rfloor>" and "0 < \<lfloor>1 / x\<rfloor>"
      by linarith+
    with False x show ?thesis by simp
  qed
qed

declare expo.simps [simp del]

text \<open>The nearest integer, a tie going to the even one.\<close>

definition round_half_even :: "real \<Rightarrow> int" where
  "round_half_even m =
     (let f = \<lfloor>m\<rfloor>; d = m - of_int f
      in if d < 1 / 2 then f else if 1 / 2 < d then f + 1 else if even f then f else f + 1)"

text \<open>
  The double nearest to a real: 53 significant bits, a tie going to the even
  significand, exponents from -1022 (below that the spacing stays that of the
  subnormal numbers), and an infinity once the rounded magnitude reaches
  \<open>2 ^ 1024\<close>.
\<close>

definition to_double :: "real \<Rightarrow> number" where
  "to_double x =
     (if x = 0 then Fin 0
      else
        (let e = max (expo \<bar>x\<bar>) (- 1022);
             ulp = 2 powi (e - 52);
             y = of_int (round_half_even (x / ulp)) * ulp
         in if 2 ^ 1024 \<le> \<bar>y\<bar> then (if 0 < x then PosInf else NegInf) else Fin y))"

text \<open>
  The operator \<^verbatim>\<open>*\<close>: NaN is contagious, an infinity times zero is NaN, an infinity
  times anything else is an infinity of the product's sign, and the product of two
  finite numbers is the double nearest to the exact product.
\<close>

fun num_times :: "number \<Rightarrow> number \<Rightarrow> number" where
  "num_times NaN _ = NaN"
| "num_times _ NaN = NaN"
| "num_times (Fin a) (Fin b) = to_double (a * b)"
| "num_times a b =
     (if num_sign a * num_sign b = 0 then NaN
      else if 0 < num_sign a * num_sign b then PosInf else NegInf)"

text \<open>\<^verbatim>\<open>Math.floor\<close>: NaN and the infinities are returned as they are.\<close>

definition Math_floor :: "number \<Rightarrow> number" where
  "Math_floor x = (case x of Fin a \<Rightarrow> Fin (of_int \<lfloor>a\<rfloor>) | _ \<Rightarrow> x)"

text \<open>
  The clamp of the specification, in its usual reading: the lower bound below it, the
  upper bound above it, the value itself otherwise. It is written from the
  specification's words, to be compared with what \<^verbatim>\<open>setVolume\<close> computes.
\<close>

definition spec_clamp :: "number \<Rightarrow> number \<Rightarrow> number \<Rightarrow> number" where
  "spec_clamp v lo hi = (if num_less v lo then lo else if num_less hi v then hi else v)"

text \<open>Membership of the closed interval from 0 to 1, with the comparisons of JavaScript.\<close>

definition in_unit_interval :: "number \<Rightarrow> bool" where
  "in_unit_interval v = (v \<noteq> NaN \<and> \<not> num_less v (Fin 0) \<and> \<not> num_less (Fin 1) v)"


section \<open>The platform: audio elements, timers, the console\<close>

text \<open>
  An \<^verbatim>\<open>HTMLAudioElement\<close> is a mutable object; the library reads and writes the
  fields below. References to elements are indices into the list of all elements
  created so far (\<open>heap\<close>), so that the element returned to the caller, the one a
  timer callback holds and the one in the cache can be the same object. The platform's
  own checks on assigned values (a browser rejects a volume outside the unit interval)
  and the resolution of \<^verbatim>\<open>src\<close> to an absolute address are not modelled: a field
  holds what the library wrote. \<open>loads\<close> counts the calls of \<^verbatim>\<open>load()\<close>.
\<close>

record audio =
  src :: string
  preload :: string
  volume :: number
  loop :: bool
  currentTime :: number
  paused :: bool
  loads :: nat

text \<open>\<^verbatim>\<open>SoundSample\<close>: start time and duration, in seconds.\<close>

record SoundSample =
  start :: number
  duration :: number

text \<open>
  The three closures the library hands to \<^verbatim>\<open>setTimeout\<close>, with the variables they
  capture: the one of \<^verbatim>\<open>playSound\<close> (lines 98 to 102), the outer one of
  \<^verbatim>\<open>playSoundSample\<close> (lines 143 to 152) and the inner one (lines 149 to 151).
  The outer closure of \<^verbatim>\<open>playSoundSample\<close> captures the selected sample, an object
  of the caller's: the last argument of \<open>StartSample\<close> is the reference to it.
\<close>

datatype callback =
  StartSound nat string
| StartSample nat string nat
| StopSound nat

record timer =
  callback :: callback
  delay :: number

text \<open>
  The diagnostics written to the console:
  \<open>NotFound key\<close> is the warning \<^verbatim>\<open>Sound "key" not found in audio cache\<close>,
  \<open>NoCollection key\<close> the warning \<^verbatim>\<open>No sample collection registered for "key"\<close>,
  \<open>PlayError key\<close> the error \<^verbatim>\<open>Error playing sound "key":\<close> with the platform's reason.
\<close>

datatype diagnostic = NotFound string | NoCollection string | PlayError string

datatype js_error = TypeError

text \<open>
  The state of the page: the three module-level variables of \<^verbatim>\<open>index.ts\<close>
  (\<open>audioCache\<close>, \<open>globalVolume\<close>, \<open>muted\<close>), and the platform's part: the audio
  elements, the timers set and not yet fired (in the order of the calls of
  \<^verbatim>\<open>setTimeout\<close>) and the console's output. \<open>sampleObjects\<close> are the sample
  objects of the caller, by reference: what \<^verbatim>\<open>start\<close> and \<^verbatim>\<open>duration\<close> each of
  them holds now. The caller may write them at any time; the library only reads
  them. A reference always denotes an object, so the store is total.
\<close>

record world =
  audioCache :: "string \<rightharpoonup> nat"
  globalVolume :: number
  muted :: bool
  heap :: "audio list"
  timers :: "timer list"
  console :: "diagnostic list"
  sampleObjects :: "nat \<Rightarrow> SoundSample"

text \<open>
  The module as loaded: lines 7, 10 and 11. The caller has written no sample yet:
  every sample object reads zero.
\<close>

definition initial_world :: world where
  "initial_world =
     \<lparr>audioCache = Map.empty, globalVolume = Fin (7 / 10), muted = False,
      heap = [], timers = [], console = [],
      sampleObjects = (\<lambda>ref. \<lparr>start = Fin 0, duration = Fin 0\<rparr>)\<rparr>"

text \<open>
  \<^verbatim>\<open>new Audio(path)\<close>: a new element, paused, at position 0, with the platform's
  defaults (full volume, no loop, preload hint \<^verbatim>\<open>auto\<close>).
\<close>

definition new_Audio :: "string \<Rightarrow> world \<Rightarrow> nat \<times> world" where
  "new_Audio path w =
     (length (heap w),
      w\<lparr>heap := heap w @
        [\<lparr>src = path, preload = ''auto'', volume = Fin 1, loop = False,
          currentTime = Fin 0, paused = True, loads = 0\<rparr>]\<rparr>)"

text \<open>A write to fields of the element behind a reference.\<close>

definition modify :: "nat \<Rightarrow> (audio \<Rightarrow> audio) \<Rightarrow> world \<Rightarrow> world" where
  "modify a f w = w\<lparr>heap := (heap w)[a := f (heap w ! a)]\<rparr>"

definition setTimeout :: "callback \<Rightarrow> number \<Rightarrow> world \<Rightarrow> world" where
  "setTimeout cb ms w = w\<lparr>timers := timers w @ [\<lparr>callback = cb, delay = ms\<rparr>]\<rparr>"

definition console_log :: "diagnostic \<Rightarrow> world \<Rightarrow> world" where
  "console_log d w = w\<lparr>console := console w @ [d]\<rparr>"

text \<open>The caller's assignment \<^verbatim>\<open>sample.duration = v\<close> to one of its sample objects.\<close>

definition write_duration :: "nat \<Rightarrow> number \<Rightarrow> world \<Rightarrow> world" where
  "write_duration ref v w =
     w\<lparr>sampleObjects := (sampleObjects w)(ref := (sampleObjects w ref)\<lparr>duration := v\<rparr>)\<rparr>"


section \<open>The player\<close>

text \<open>
  \<^verbatim>\<open>SoundConfig\<close>: a JavaScript object used as a dictionary from sound keys to paths.
  \<open>own\<close> are its own properties, in the order in which \<^verbatim>\<open>Object.entries\<close> lists
  them; \<open>inherited\<close> are the properties it has through its prototype chain, each with
  the text that \<^verbatim>\<open>new Audio\<close> makes of its value. The operator \<^verbatim>\<open>in\<close> and the
  property read \<^verbatim>\<open>obj[key]\<close> find an own property first and an inherited one
  otherwise; \<open>None\<close> is \<^verbatim>\<open>undefined\<close>.
\<close>

record SoundConfig =
  own :: "(string \<times> string) list"
  inherited :: "(string \<times> string) list"

definition property :: "SoundConfig \<Rightarrow> string \<Rightarrow> string option" where
  "property obj key =
     (case map_of (own obj) key of Some v \<Rightarrow> Some v | None \<Rightarrow> map_of (inherited obj) key)"

text \<open>
  What every object written as a literal inherits: the properties of
  \<^verbatim>\<open>Object.prototype\<close>. All but the last are functions.
\<close>

definition Object_prototype :: "(string \<times> string) list" where
  "Object_prototype =
     [(''constructor'', ''function Object() { [native code] }''),
      (''hasOwnProperty'', ''function hasOwnProperty() { [native code] }''),
      (''isPrototypeOf'', ''function isPrototypeOf() { [native code] }''),
      (''propertyIsEnumerable'', ''function propertyIsEnumerable() { [native code] }''),
      (''toLocaleString'', ''function toLocaleString() { [native code] }''),
      (''toString'', ''function toString() { [native code] }''),
      (''valueOf'', ''function valueOf() { [native code] }''),
      (''__defineGetter__'', ''function __defineGetter__() { [native code] }''),
      (''__defineSetter__'', ''function __defineSetter__() { [native code] }''),
      (''__lookupGetter__'', ''function __lookupGetter__() { [native code] }''),
      (''__lookupSetter__'', ''function __lookupSetter__() { [native code] }''),
      (''__proto__'', ''[object Object]'')]"

text \<open>The object literal with the given entries, as in the README.\<close>

definition object_literal :: "(string \<times> string) list \<Rightarrow> SoundConfig" where
  "object_literal entries = \<lparr>own = entries, inherited = Object_prototype\<rparr>"

text \<open>
  An instance of \<^verbatim>\<open>SoundEffectsPlayer\<close>. \<open>sampleCollections\<close> holds the own
  properties of the object that line 29 creates as the literal \<^verbatim>\<open>{}\<close>, which
  inherits from \<^verbatim>\<open>Object.prototype\<close> as well. An array of samples is the list of
  the references to its elements, as the array is when an operation reads it.
\<close>

record player =
  soundPaths :: SoundConfig
  sampleCollections :: "string \<rightharpoonup> nat list"

text \<open>
  The constructor (lines 36 to 39). The initial volume is optional; a missing one is the
  default 0.7. It assigns the module-level \<open>globalVolume\<close>.
\<close>

definition SoundEffectsPlayer ::
  "SoundConfig \<Rightarrow> number option \<Rightarrow> world \<Rightarrow> player \<times> world" where
  "SoundEffectsPlayer paths initialVolume w =
     (let iv = (case initialVolume of None \<Rightarrow> Fin (7 / 10) | Some v \<Rightarrow> v)
      in (\<lparr>soundPaths = paths, sampleCollections = Map.empty\<rparr>,
          w\<lparr>globalVolume := Math_max (Fin 0) (Math_min (Fin 1) iv)\<rparr>))"

text \<open>
  \<^verbatim>\<open>registerSamples\<close> (lines 46 to 48). For the key \<^verbatim>\<open>__proto__\<close> the assignment
  does not store a property: it replaces the prototype of the object. The model does
  not follow that, and the result is \<open>None\<close> there.
\<close>

definition registerSamples :: "string \<Rightarrow> nat list \<Rightarrow> player \<Rightarrow> player option" where
  "registerSamples key samples p =
     (if key = ''__proto__'' then None
      else Some (p\<lparr>sampleCollections := (sampleCollections p)(key \<mapsto> samples)\<rparr>))"

text \<open>\<^verbatim>\<open>preloadSound\<close> (lines 55 to 64).\<close>

definition preloadSound :: "string \<Rightarrow> string \<Rightarrow> world \<Rightarrow> world" where
  "preloadSound key path w =
     (if audioCache w key = None then
        (let (a, w1) = new_Audio path w;
             w2 = modify a (\<lambda>e. e\<lparr>preload := ''auto''\<rparr>) w1;
             w3 = w2\<lparr>audioCache := (audioCache w2)(key \<mapsto> a)\<rparr>
         in modify a (\<lambda>e. e\<lparr>loads := Suc (loads e)\<rparr>) w3)
      else w)"

text \<open>\<^verbatim>\<open>preloadAllSounds\<close> (lines 69 to 73).\<close>

definition preloadAllSounds :: "player \<Rightarrow> world \<Rightarrow> world" where
  "preloadAllSounds p w =
     fold (\<lambda>(key, path). preloadSound key path) (own (soundPaths p)) w"

text \<open>
  The lazy preload that opens both play operations (lines 86 to 88 and 126 to 128).
\<close>

definition ensure_loaded :: "player \<Rightarrow> string \<Rightarrow> world \<Rightarrow> world" where
  "ensure_loaded p key w =
     (if audioCache w key = None
      then (case property (soundPaths p) key of
              Some path \<Rightarrow> preloadSound key path w
            | None \<Rightarrow> w)
      else w)"

text \<open>
  \<^verbatim>\<open>playSound\<close> (lines 82 to 109). The volume is optional (\<open>None\<close> is
  \<^verbatim>\<open>undefined\<close>); the caller of the model passes \<open>False\<close> for a missing loop flag.
  The result is the reference of the new element, or \<open>None\<close> for \<^verbatim>\<open>undefined\<close>.
\<close>

definition playSound ::
  "player \<Rightarrow> string \<Rightarrow> number option \<Rightarrow> bool \<Rightarrow> world \<Rightarrow> nat option \<times> world" where
  "playSound p key vol lp w =
     (if muted w then (None, w)
      else
        (let w1 = ensure_loaded p key w in
         case audioCache w1 key of
           Some a \<Rightarrow>
             (let (soundInstance, w2) = new_Audio (src (heap w1 ! a)) w1;
                  w3 = modify soundInstance
                         (\<lambda>e. e\<lparr>volume := (case vol of Some v \<Rightarrow> v | None \<Rightarrow> globalVolume w2)\<rparr>) w2;
                  w4 = modify soundInstance (\<lambda>e. e\<lparr>loop := lp\<rparr>) w3;
                  w5 = setTimeout (StartSound soundInstance key) (Fin 0) w4
              in (Some soundInstance, w5))
         | None \<Rightarrow> (None, console_log (NotFound key) w1)))"

text \<open>
  Line 137: \<^verbatim>\<open>samples[Math.floor(Math.random() * samples.length)]\<close>, with the value
  \<open>r\<close> of \<^verbatim>\<open>Math.random()\<close> as an argument. The product is the rounded one of
  the operator \<^verbatim>\<open>*\<close>. An index outside the array reads \<^verbatim>\<open>undefined\<close>, and so
  does an index that is not a finite number; line 140 then throws a TypeError on
  \<^verbatim>\<open>randomSample.start\<close>. The result is the reference to the selected sample.
\<close>

definition selectSample :: "nat list \<Rightarrow> real \<Rightarrow> js_error + nat" where
  "selectSample samples r =
     (case Math_floor (num_times (Fin r) (Fin (real (length samples)))) of
        Fin i \<Rightarrow>
          if 0 \<le> i \<and> i < real (length samples) then Inr (samples ! nat \<lfloor>i\<rfloor>)
          else Inl TypeError
      | _ \<Rightarrow> Inl TypeError)"

text \<open>
  \<^verbatim>\<open>playSoundSample\<close> (lines 118 to 159). An exception leaves the state as it was
  when it was thrown: the element is created and has its volume, no timer is set.
\<close>

definition playSoundSample ::
  "player \<Rightarrow> string \<Rightarrow> nat list \<Rightarrow> number option \<Rightarrow> real \<Rightarrow> world
     \<Rightarrow> (js_error + nat option) \<times> world" where
  "playSoundSample p key samples vol r w =
     (if muted w then (Inr None, w)
      else
        (let w1 = ensure_loaded p key w in
         case audioCache w1 key of
           Some a \<Rightarrow>
             (let (soundInstance, w2) = new_Audio (src (heap w1 ! a)) w1;
                  w3 = modify soundInstance
                         (\<lambda>e. e\<lparr>volume := (case vol of Some v \<Rightarrow> v | None \<Rightarrow> globalVolume w2)\<rparr>) w2
              in case selectSample samples r of
                   Inl err \<Rightarrow> (Inl err, w3)
                 | Inr randomSample \<Rightarrow>
                     (let w4 = modify soundInstance
                                 (\<lambda>e. e\<lparr>currentTime := start (sampleObjects w3 randomSample)\<rparr>) w3;
                          w5 = setTimeout (StartSample soundInstance key randomSample) (Fin 0) w4
                      in (Inr (Some soundInstance), w5)))
         | None \<Rightarrow> (Inr None, console_log (NotFound key) w1)))"

text \<open>
  \<^verbatim>\<open>playRegisteredSample\<close> (lines 166 to 172). For a key that names an inherited
  property, \<^verbatim>\<open>key in this.sampleCollections\<close> holds and the value handed on as
  \<^verbatim>\<open>samples\<close> is a function or the prototype object, not an array: whatever its
  \<^verbatim>\<open>length\<close>, every indexed read of it is \<^verbatim>\<open>undefined\<close>, as for the empty array,
  which stands for it here.
\<close>

definition playRegisteredSample ::
  "player \<Rightarrow> string \<Rightarrow> number option \<Rightarrow> real \<Rightarrow> world \<Rightarrow> (js_error + nat option) \<times> world" where
  "playRegisteredSample p key vol r w =
     (case sampleCollections p key of
        Some samples \<Rightarrow> playSoundSample p key samples vol r w
      | None \<Rightarrow>
          if map_of Object_prototype key \<noteq> None then playSoundSample p key [] vol r w
          else (Inr None, console_log (NoCollection key) w))"

text \<open>
  \<^verbatim>\<open>stopSound\<close>, the method (lines 178 to 183) and the exported function (lines 219
  to 224), which have the same body. \<open>None\<close> is a null or undefined argument.
\<close>

definition stopSound :: "nat option \<Rightarrow> world \<Rightarrow> world" where
  "stopSound audio w =
     (case audio of
        Some a \<Rightarrow> modify a (\<lambda>e. e\<lparr>currentTime := Fin 0\<rparr>) (modify a (\<lambda>e. e\<lparr>paused := True\<rparr>) w)
      | None \<Rightarrow> w)"

definition setVolume :: "number \<Rightarrow> world \<Rightarrow> world" where
  "setVolume v w = w\<lparr>globalVolume := Math_max (Fin 0) (Math_min (Fin 1) v)\<rparr>"

definition getVolume :: "world \<Rightarrow> number" where
  "getVolume w = globalVolume w"

definition setMuted :: "bool \<Rightarrow> world \<Rightarrow> world" where
  "setMuted isMuted w = w\<lparr>muted := isMuted\<rparr>"

definition isMuted :: "world \<Rightarrow> bool" where
  "isMuted w = muted w"


section \<open>Deferred actions\<close>

text \<open>
  \<^verbatim>\<open>soundInstance.play().catch(...)\<close>: the platform either starts the element or
  rejects the request (\<open>ok\<close> is its decision), and a rejection is written to the
  console by the handler. The handler runs once the closure has returned; it writes
  the console only, which the rest of the closure does not touch, so the result is the
  same.
\<close>

definition issue_play :: "nat \<Rightarrow> string \<Rightarrow> bool \<Rightarrow> world \<Rightarrow> world" where
  "issue_play a key ok w =
     (if ok then modify a (\<lambda>e. e\<lparr>paused := False\<rparr>) w else console_log (PlayError key) w)"

text \<open>
  The bodies of the three closures. The outer closure of \<^verbatim>\<open>playSoundSample\<close> issues
  the start and then sets the timer of the stop, with the delay
  \<^verbatim>\<open>randomSample.duration * 1000\<close>: the duration that the sample object holds when
  the closure runs.
\<close>

fun run_callback :: "callback \<Rightarrow> bool \<Rightarrow> world \<Rightarrow> world" where
  "run_callback (StartSound a key) ok w = issue_play a key ok w"
| "run_callback (StartSample a key randomSample) ok w =
     (let w1 = issue_play a key ok w
      in setTimeout (StopSound a)
           (num_times (duration (sampleObjects w1 randomSample)) (Fin 1000)) w1)"
| "run_callback (StopSound a) ok w = stopSound (Some a) w"

text \<open>
  The event loop fires the pending timer number \<open>n\<close>: it leaves the list and its
  callback runs. Which timer fires and when is the platform's choice, bound by the
  delays; the model records the delay each timer was set with.
\<close>

definition fire_timer :: "nat \<Rightarrow> bool \<Rightarrow> world \<Rightarrow> world" where
  "fire_timer n ok w =
     (if n < length (timers w)
      then run_callback (callback (timers w ! n)) ok
             (w\<lparr>timers := take n (timers w) @ drop (Suc n) (timers w)\<rparr>)
      else w)"

text \<open>The global playback policy: the two module-level settings.\<close>

definition policy :: "world \<Rightarrow> number \<times> bool" where
  "policy w = (globalVolume w, muted w)"


section \<open>A small page\<close>

text \<open>
  The scenario of the README and of the specification: a player over the registry
  \<^verbatim>\<open>{a: "a.mp3"}\<close>, constructed with the default volume in the module as loaded,
  and all its sounds preloaded. The page has three sample objects, with the references
  0, 1 and 2: \<^verbatim>\<open>{start: 2, duration: 0.5}\<close>, \<^verbatim>\<open>{start: 0, duration: 1}\<close> and
  \<^verbatim>\<open>{start: 4, duration: 5}\<close>.
\<close>

definition page_samples :: "nat \<Rightarrow> SoundSample" where
  "page_samples ref =
     (if ref = 0 then \<lparr>start = Fin 2, duration = Fin (1 / 2)\<rparr>
      else if ref = 1 then \<lparr>start = Fin 0, duration = Fin 1\<rparr>
      else if ref = 2 then \<lparr>start = Fin 4, duration = Fin 5\<rparr>
      else \<lparr>start = Fin 0, duration = Fin 0\<rparr>)"

definition demo_player :: player where
  "demo_player = fst (SoundEffectsPlayer (object_literal [(''a'', ''a.mp3'')]) None initial_world)"

definition demo_world :: world where
  "demo_world =
     preloadAllSounds demo_player
       (snd (SoundEffectsPlayer (object_literal [(''a'', ''a.mp3'')]) None
          (initial_world\<lparr>sampleObjects := page_samples\<rparr>)))"

text \<open>The same player after \<^verbatim>\<open>registerSamples("a", samples)\<close>.\<close>

definition demo_registered :: "nat list \<Rightarrow> player" where
  "demo_registered samples =
     (case registerSamples ''a'' samples demo_player of Some p \<Rightarrow> p | None \<Rightarrow> demo_player)"

text \<open>The first of the page's samples, and a value of \<^verbatim>\<open>Math.random()\<close>.\<close>

definition half_second :: nat where
  "half_second = 0"

definition two_thirds :: real where
  "two_thirds = 6004799503160661 / 2 ^ 53"

text \<open>The array of the page's three samples.\<close>

definition three_samples :: "nat list" where
  "three_samples = [0, 1, 2]"


section \<open>What the platform operations leave alone\<close>

lemma modify_frame:
  "audioCache (modify a f w) = audioCache w"
  "globalVolume (modify a f w) = globalVolume w"
  "muted (modify a f w) = muted w"
  "timers (modify a f w) = timers w"
  "console (modify a f w) = console w"
  "length (heap (modify a f w)) = length (heap w)"
  "sampleObjects (modify a f w) = sampleObjects w"
  by (simp_all add: modify_def)

lemma setTimeout_frame:
  "audioCache (setTimeout cb ms w) = audioCache w"
  "globalVolume (setTimeout cb ms w) = globalVolume w"
  "muted (setTimeout cb ms w) = muted w"
  "heap (setTimeout cb ms w) = heap w"
  "console (setTimeout cb ms w) = console w"
  "timers (setTimeout cb ms w) = timers w @ [\<lparr>callback = cb, delay = ms\<rparr>]"
  "sampleObjects (setTimeout cb ms w) = sampleObjects w"
  by (simp_all add: setTimeout_def)

lemma console_log_frame:
  "audioCache (console_log d w) = audioCache w"
  "globalVolume (console_log d w) = globalVolume w"
  "muted (console_log d w) = muted w"
  "heap (console_log d w) = heap w"
  "timers (console_log d w) = timers w"
  "console (console_log d w) = console w @ [d]"
  "sampleObjects (console_log d w) = sampleObjects w"
  by (simp_all add: console_log_def)

lemma new_Audio_frame:
  "fst (new_Audio path w) = length (heap w)"
  "audioCache (snd (new_Audio path w)) = audioCache w"
  "globalVolume (snd (new_Audio path w)) = globalVolume w"
  "muted (snd (new_Audio path w)) = muted w"
  "timers (snd (new_Audio path w)) = timers w"
  "console (snd (new_Audio path w)) = console w"
  "length (heap (snd (new_Audio path w))) = Suc (length (heap w))"
  "sampleObjects (snd (new_Audio path w)) = sampleObjects w"
  by (simp_all add: new_Audio_def)


section \<open>The global playback policy\<close>

lemma policy_modify: "policy (modify a f w) = policy w"
  by (simp add: policy_def modify_frame)

lemma policy_setTimeout: "policy (setTimeout cb ms w) = policy w"
  by (simp add: policy_def setTimeout_frame)

lemma policy_console_log: "policy (console_log d w) = policy w"
  by (simp add: policy_def console_log_frame)

lemma policy_new_Audio: "policy (snd (new_Audio path w)) = policy w"
  by (simp add: policy_def new_Audio_frame)

lemma policy_preloadSound: "policy (preloadSound key path w) = policy w"
  by (simp add: preloadSound_def policy_def new_Audio_def modify_def)

lemma policy_preloadAllSounds: "policy (preloadAllSounds p w) = policy w"
proof -
  have "policy (fold (\<lambda>(key, path). preloadSound key path) xs w) = policy w" for xs
    by (induction xs arbitrary: w) (auto simp: policy_preloadSound)
  then show ?thesis by (simp add: preloadAllSounds_def)
qed

lemma policy_ensure_loaded: "policy (ensure_loaded p key w) = policy w"
  by (simp add: ensure_loaded_def policy_preloadSound split: option.splits)

lemma policy_playSound: "policy (snd (playSound p key vol lp w)) = policy w"
  by (simp add: playSound_def Let_def policy_ensure_loaded policy_modify policy_setTimeout
      policy_console_log policy_new_Audio case_prod_beta split: option.splits)

lemma policy_playSoundSample: "policy (snd (playSoundSample p key samples vol r w)) = policy w"
  by (simp add: playSoundSample_def Let_def policy_ensure_loaded policy_modify policy_setTimeout
      policy_console_log policy_new_Audio case_prod_beta split: option.splits sum.splits)

lemma policy_playRegisteredSample:
  "policy (snd (playRegisteredSample p key vol r w)) = policy w"
  by (simp add: playRegisteredSample_def policy_playSoundSample policy_console_log
      split: option.splits)

lemma policy_stopSound: "policy (stopSound a w) = policy w"
  by (simp add: stopSound_def policy_modify split: option.splits)

lemma policy_issue_play: "policy (issue_play a key ok w) = policy w"
  by (simp add: issue_play_def policy_modify policy_console_log)

lemma policy_run_callback: "policy (run_callback cb ok w) = policy w"
  by (cases cb) (simp_all add: Let_def policy_issue_play policy_setTimeout policy_stopSound)

lemma policy_fire_timer: "policy (fire_timer n ok w) = policy w"
  by (simp add: fire_timer_def policy_run_callback) (simp add: policy_def)

text \<open>
  Claim C3, as stated, fails: constructing a player assigns the global volume. After
  \<^verbatim>\<open>setVolume(0.2)\<close>, \<^verbatim>\<open>new SoundEffectsPlayer({})\<close> puts the global volume back to
  the default 0.7.
\<close>

theorem constructor_overwrites_global_volume:
  "getVolume (snd (SoundEffectsPlayer (object_literal []) None
       (setVolume (Fin (1 / 5)) initial_world)))
     \<noteq> getVolume (setVolume (Fin (1 / 5)) initial_world)"
  by (simp add: SoundEffectsPlayer_def setVolume_def getVolume_def initial_world_def
      Math_max_def Math_min_def)

text \<open>
  Claim C3, amended: the global playback policy (volume, muted) is mutated only by
  \<^verbatim>\<open>setVolume\<close>, \<^verbatim>\<open>setMuted\<close> and the constructor, which assigns the clamped
  initial volume (0.7 when none is given) to the global volume and leaves the mute flag
  as it is. Every other operation leaves both unchanged: \<^verbatim>\<open>preloadSound\<close>,
  \<^verbatim>\<open>preloadAllSounds\<close>, \<^verbatim>\<open>playSound\<close>, \<^verbatim>\<open>playSoundSample\<close>,
  \<^verbatim>\<open>playRegisteredSample\<close>, \<^verbatim>\<open>stopSound\<close> and the deferred start and stop
  actions. (\<^verbatim>\<open>registerSamples\<close> writes the player only, and the two getters write
  nothing.)
\<close>

theorem policy_changed_only_by_setters_and_constructor:
  "policy (preloadSound key path w) = policy w
   \<and> policy (preloadAllSounds p w) = policy w
   \<and> policy (snd (playSound p key vol lp w)) = policy w
   \<and> policy (snd (playSoundSample p key samples vol r w)) = policy w
   \<and> policy (snd (playRegisteredSample p key vol r w)) = policy w
   \<and> policy (stopSound a w) = policy w
   \<and> policy (fire_timer n ok w) = policy w
   \<and> muted (snd (SoundEffectsPlayer paths iv w)) = muted w
   \<and> globalVolume (snd (SoundEffectsPlayer paths iv w))
       = Math_max (Fin 0) (Math_min (Fin 1) (case iv of None \<Rightarrow> Fin (7 / 10) | Some v \<Rightarrow> v))
   \<and> policy (setVolume v w) = (Math_max (Fin 0) (Math_min (Fin 1) v), muted w)
   \<and> policy (setMuted b w) = (globalVolume w, b)"
  by (simp add: policy_preloadSound policy_preloadAllSounds policy_playSound
      policy_playSoundSample policy_playRegisteredSample policy_stopSound policy_fire_timer
      SoundEffectsPlayer_def setVolume_def setMuted_def)
    (simp add: policy_def)


section \<open>Volume\<close>

text \<open>
  Claim C8: for every number \<open>v\<close>, \<^verbatim>\<open>setVolume(v)\<close> followed by \<^verbatim>\<open>getVolume()\<close>
  returns \<open>clamp(v, 0, 1)\<close>. (NaN is neither below 0 nor above 1, and both sides
  return it unchanged.)
\<close>

theorem setVolume_getVolume:
  "getVolume (setVolume v w) = spec_clamp v (Fin 0) (Fin 1)"
  by (cases v) (simp_all add: getVolume_def setVolume_def spec_clamp_def Math_max_def Math_min_def)


section \<open>The small page, evaluated\<close>

lemma demo_player_eq:
  "demo_player =
     \<lparr>soundPaths = object_literal [(''a'', ''a.mp3'')], sampleCollections = Map.empty\<rparr>"
  by (simp add: demo_player_def SoundEffectsPlayer_def)

lemma demo_property:
  "property (soundPaths demo_player) ''a'' = Some ''a.mp3''"
  "property (soundPaths demo_player) ''x'' = None"
  "map_of (own (soundPaths demo_player)) ''toString'' = None"
  "property (soundPaths demo_player) ''toString'' = Some ''function toString() { [native code] }''"
  by (simp_all add: demo_player_eq property_def object_literal_def Object_prototype_def)

lemma demo_registered_eq:
  "demo_registered samples =
     \<lparr>soundPaths = object_literal [(''a'', ''a.mp3'')],
      sampleCollections = [''a'' \<mapsto> samples]\<rparr>"
  by (simp add: demo_registered_def registerSamples_def demo_player_eq)

lemma demo_world_eq:
  "demo_world =
     \<lparr>audioCache = [''a'' \<mapsto> 0], globalVolume = Fin (7 / 10), muted = False,
      heap = [\<lparr>src = ''a.mp3'', preload = ''auto'', volume = Fin 1, loop = False,
               currentTime = Fin 0, paused = True, loads = 1\<rparr>],
      timers = [], console = [], sampleObjects = page_samples\<rparr>"
  by (simp add: demo_world_def demo_player_eq SoundEffectsPlayer_def preloadAllSounds_def
      object_literal_def preloadSound_def new_Audio_def modify_def initial_world_def
      Math_max_def Math_min_def)


section \<open>Playing while muted\<close>

text \<open>
  Claim C5: for every identifier, valid or not, \<^verbatim>\<open>playSound\<close> and
  \<^verbatim>\<open>playSoundSample\<close> called while the global mute flag is set return no instance
  and perform no scheduling action: the list of pending timers is the one before the
  call, so neither a start nor a stop callback was created.
\<close>

theorem muted_play_returns_nothing_schedules_nothing:
  assumes "muted w"
  shows "fst (playSound p key vol lp w) = None
     \<and> timers (snd (playSound p key vol lp w)) = timers w
     \<and> fst (playSoundSample p key samples vol r w) = Inr None
     \<and> timers (snd (playSoundSample p key samples vol r w)) = timers w"
  using assms by (simp add: playSound_def playSoundSample_def)

theorem muted_play_returns_nothing_schedules_nothing_witness:
  "muted (setMuted True demo_world)
     \<and> fst (playSound demo_player ''a'' None False (setMuted True demo_world)) = None
     \<and> timers (snd (playSound demo_player ''a'' None False (setMuted True demo_world))) = []
     \<and> fst (playSoundSample demo_player ''a'' [half_second] None 0 (setMuted True demo_world))
         = Inr None
     \<and> timers (snd (playSoundSample demo_player ''a'' [half_second] None 0
         (setMuted True demo_world))) = []"
proof -
  have m: "muted (setMuted True demo_world)"
    by (simp add: setMuted_def)
  have t: "timers (setMuted True demo_world) = []"
    by (simp add: setMuted_def demo_world_eq)
  show ?thesis
    using m t muted_play_returns_nothing_schedules_nothing
      [OF m, of demo_player "''a''" None False "[half_second]" 0]
    by simp
qed

text \<open>
  Claim C10: while the global mute flag is set, \<^verbatim>\<open>playSound\<close> and
  \<^verbatim>\<open>playSoundSample\<close> leave the whole state as it is (the player itself is only
  read by them); in particular no lazy preload occurs and the cache has the same
  entries after the call as before, for every identifier. The witness calls them for
  an identifier that is in the registry and not yet in the cache, where an unmuted
  call would preload.
\<close>

theorem muted_play_leaves_state_unchanged:
  assumes "muted w"
  shows "snd (playSound p key vol lp w) = w
     \<and> snd (playSoundSample p key samples vol r w) = w
     \<and> audioCache (snd (playSound p key vol lp w)) = audioCache w
     \<and> audioCache (snd (playSoundSample p key samples vol r w)) = audioCache w"
  using assms by (simp add: playSound_def playSoundSample_def)

theorem muted_play_leaves_state_unchanged_witness:
  "muted (setMuted True initial_world)
     \<and> property (soundPaths demo_player) ''a'' = Some ''a.mp3''
     \<and> snd (playSound demo_player ''a'' None False (setMuted True initial_world))
         = setMuted True initial_world
     \<and> snd (playSoundSample demo_player ''a'' [half_second] None 0 (setMuted True initial_world))
         = setMuted True initial_world
     \<and> audioCache (snd (playSound demo_player ''a'' None False (setMuted True initial_world))) ''a''
         = None
     \<and> audioCache (snd (playSoundSample demo_player ''a'' [half_second] None 0
         (setMuted True initial_world))) ''a'' = None"
proof -
  have m: "muted (setMuted True initial_world)"
    by (simp add: setMuted_def)
  have c: "audioCache (setMuted True initial_world) ''a'' = None"
    by (simp add: setMuted_def initial_world_def)
  have r: "property (soundPaths demo_player) ''a'' = Some ''a.mp3''"
    by (simp add: demo_property)
  show ?thesis
    using m c r muted_play_leaves_state_unchanged
      [OF m, of demo_player "''a''" None False "[half_second]" 0]
    by simp
qed


section \<open>Unknown identifiers\<close>

text \<open>
  An identifier that has no cache entry and is no property of the configuration object,
  own or inherited: \<^verbatim>\<open>playSound\<close>, while not muted, returns no instance and
  writes exactly one \<open>NotFound\<close> warning; nothing else changes.
\<close>

lemma playSound_unknown_key:
  assumes "\<not> muted w" and "audioCache w key = None" and "property (soundPaths p) key = None"
  shows "playSound p key vol lp w = (None, w\<lparr>console := console w @ [NotFound key]\<rparr>)"
  using assms by (simp add: playSound_def ensure_loaded_def console_log_def)

lemma playSound_unknown_key_demo:
  "fst (playSound demo_player ''x'' None False demo_world) = None
     \<and> console (snd (playSound demo_player ''x'' None False demo_world)) = [NotFound ''x'']"
proof -
  have m: "\<not> muted demo_world" and c: "audioCache demo_world ''x'' = None"
    and e: "console demo_world = []"
    by (simp_all add: demo_world_eq)
  show ?thesis
    using e playSound_unknown_key [OF m c demo_property(2), of None False]
    by simp
qed

text \<open>
  Claim C6 says that for every identifier with neither a cache entry nor a registry
  entry, \<^verbatim>\<open>playSound\<close>, while not muted, returns no instance and emits exactly one
  \<open>NotFound\<close> warning. Line 86 tests the registry with the operator \<^verbatim>\<open>in\<close>,
  which also finds what the configuration object inherits from its prototype. With
  the registry \<^verbatim>\<open>{a: "a.mp3"}\<close>, the identifier \<^verbatim>\<open>toString\<close> has no cache entry
  and no registry entry, and \<^verbatim>\<open>playSound("toString")\<close> preloads an element from
  the inherited function taken as a path, returns a new instance with its start timer
  set, and writes no warning.
\<close>

theorem playSound_inherited_key_returns_instance:
  "\<not> muted demo_world
   \<and> audioCache demo_world ''toString'' = None
   \<and> map_of (own (soundPaths demo_player)) ''toString'' = None
   \<and> fst (playSound demo_player ''toString'' None False demo_world) = Some 2
   \<and> console (snd (playSound demo_player ''toString'' None False demo_world)) = []
   \<and> timers (snd (playSound demo_player ''toString'' None False demo_world))
       = [\<lparr>callback = StartSound 2 ''toString'', delay = Fin 0\<rparr>]
   \<and> audioCache (snd (playSound demo_player ''toString'' None False demo_world)) ''toString''
       = Some 1"
  by (simp add: playSound_def ensure_loaded_def preloadSound_def new_Audio_def modify_def
      setTimeout_def demo_property demo_world_eq)


section \<open>Preloading\<close>

text \<open>
  Claim C7: \<^verbatim>\<open>preloadSound\<close> is idempotent. For every identifier and any two
  paths, the second of two calls changes nothing (no element is created, nothing is
  loaded, the cache is the same), and after the first call the identifier has its one
  cache entry. If it had none before, the first call created exactly one element, from
  the first path, and loaded it once; if it had one, the first call changed nothing
  either.
\<close>

theorem preloadSound_idempotent:
  "preloadSound key path2 (preloadSound key path1 w) = preloadSound key path1 w
   \<and> (\<exists>a. audioCache (preloadSound key path1 w) key = Some a)
   \<and> (audioCache w key = None \<longrightarrow>
        audioCache (preloadSound key path1 w) key = Some (length (heap w))
        \<and> length (heap (preloadSound key path2 (preloadSound key path1 w))) = Suc (length (heap w))
        \<and> src (heap (preloadSound key path2 (preloadSound key path1 w)) ! length (heap w)) = path1
        \<and> loads (heap (preloadSound key path2 (preloadSound key path1 w)) ! length (heap w)) = 1)
   \<and> (audioCache w key \<noteq> None \<longrightarrow> preloadSound key path1 w = w)"
proof -
  have cached: "\<exists>a. audioCache (preloadSound key path1 w) key = Some a"
    by (cases "audioCache w key") (simp_all add: preloadSound_def new_Audio_def modify_def)
  then have again: "preloadSound key path2 (preloadSound key path1 w) = preloadSound key path1 w"
    by (auto simp: preloadSound_def [of key path2])
  have first: "audioCache (preloadSound key path1 w) key = Some (length (heap w))
      \<and> length (heap (preloadSound key path1 w)) = Suc (length (heap w))
      \<and> src (heap (preloadSound key path1 w) ! length (heap w)) = path1
      \<and> loads (heap (preloadSound key path1 w) ! length (heap w)) = 1"
    if "audioCache w key = None"
    using that by (simp add: preloadSound_def new_Audio_def modify_def)
  have noop: "preloadSound key path1 w = w" if "audioCache w key \<noteq> None"
    using that by (auto simp: preloadSound_def)
  show ?thesis
    by (auto simp: again first cached noop)
qed

theorem preloadSound_idempotent_witness:
  "audioCache initial_world ''a'' = None
   \<and> preloadSound ''a'' ''b.mp3'' (preloadSound ''a'' ''a.mp3'' initial_world)
       = preloadSound ''a'' ''a.mp3'' initial_world
   \<and> audioCache (preloadSound ''a'' ''a.mp3'' initial_world) ''a'' = Some 0
   \<and> length (heap (preloadSound ''a'' ''b.mp3'' (preloadSound ''a'' ''a.mp3'' initial_world))) = 1
   \<and> src (heap (preloadSound ''a'' ''b.mp3'' (preloadSound ''a'' ''a.mp3'' initial_world)) ! 0)
       = ''a.mp3''
   \<and> loads (heap (preloadSound ''a'' ''b.mp3'' (preloadSound ''a'' ''a.mp3'' initial_world)) ! 0) = 1
   \<and> audioCache demo_world ''a'' \<noteq> None
   \<and> preloadSound ''a'' ''b.mp3'' demo_world = demo_world"
proof -
  have c: "audioCache initial_world ''a'' = None" and h: "heap initial_world = []"
    by (simp_all add: initial_world_def)
  have d: "audioCache demo_world ''a'' \<noteq> None"
    by (simp add: demo_world_eq)
  have e: "preloadSound ''a'' ''a.mp3'' initial_world =
      demo_world\<lparr>sampleObjects := sampleObjects initial_world\<rparr>"
    by (simp add: demo_world_eq preloadSound_def new_Audio_def modify_def initial_world_def)
  show ?thesis
    using c d
      preloadSound_idempotent [of "''a''" "''b.mp3''" "''a.mp3''" initial_world]
      preloadSound_idempotent [of "''a''" "''b.mp3''" "''b.mp3''" demo_world]
    by (simp add: e h) (simp add: demo_world_eq)
qed


section \<open>What a play call that returns an instance has done\<close>

lemma ensure_loaded_frame:
  "timers (ensure_loaded p key w) = timers w"
  "globalVolume (ensure_loaded p key w) = globalVolume w"
  "console (ensure_loaded p key w) = console w"
  "sampleObjects (ensure_loaded p key w) = sampleObjects w"
  by (simp_all add: ensure_loaded_def preloadSound_def new_Audio_def modify_def
      split: option.splits)

lemma selectSample_empty: "selectSample [] r = Inl TypeError"
  by (simp add: selectSample_def Math_floor_def to_double_def)

lemma selectSample_single:
  assumes "0 \<le> r" and "r < 1" and "to_double r = Fin r"
  shows "selectSample [x] r = Inr x"
proof -
  have "\<lfloor>r\<rfloor> = 0"
    using assms by (simp add: floor_eq_iff)
  then show ?thesis
    using assms by (simp add: selectSample_def Math_floor_def)
qed

lemma selectSample_member:
  assumes "selectSample samples r = Inr smp"
  shows "smp \<in> set samples"
proof -
  from assms obtain i where "0 \<le> i" and "i < real (length samples)"
    and "smp = samples ! nat \<lfloor>i\<rfloor>"
    by (auto simp: selectSample_def split: number.splits if_splits)
  moreover from this have "nat \<lfloor>i\<rfloor> < length samples"
    by linarith
  ultimately show ?thesis
    by simp
qed

lemma playSound_instance:
  assumes "playSound p key vol lp w = (Some i, w')"
  shows "i = length (heap (ensure_loaded p key w)) \<and> length (heap w') = Suc i
     \<and> volume (heap w' ! i) = (case vol of Some v \<Rightarrow> v | None \<Rightarrow> globalVolume w)
     \<and> loop (heap w' ! i) = lp
     \<and> paused (heap w' ! i)
     \<and> timers w' = timers w @ [\<lparr>callback = StartSound i key, delay = Fin 0\<rparr>]"
  using assms
  by (auto simp: playSound_def Let_def new_Audio_def modify_def setTimeout_def
      ensure_loaded_frame split: if_splits option.splits)

lemma playSoundSample_instance:
  assumes "playSoundSample p key samples vol r w = (Inr (Some i), w')"
  shows "\<exists>smp. selectSample samples r = Inr smp
     \<and> i = length (heap (ensure_loaded p key w)) \<and> length (heap w') = Suc i
     \<and> volume (heap w' ! i) = (case vol of Some v \<Rightarrow> v | None \<Rightarrow> globalVolume w)
     \<and> currentTime (heap w' ! i) = start (sampleObjects w smp)
     \<and> paused (heap w' ! i)
     \<and> timers w' = timers w @ [\<lparr>callback = StartSample i key smp, delay = Fin 0\<rparr>]
     \<and> sampleObjects w' = sampleObjects w"
  using assms
  by (auto simp: playSoundSample_def Let_def new_Audio_def modify_def setTimeout_def
      ensure_loaded_frame split: if_splits option.splits sum.splits)


section \<open>Volumes and the unit interval\<close>

text \<open>
  The two assignments of the global volume store a value of the unit interval for every
  input but NaN, which \<^verbatim>\<open>Math.min\<close> and \<^verbatim>\<open>Math.max\<close> hand through.
\<close>

lemma setVolume_in_unit_interval:
  "v \<noteq> NaN \<Longrightarrow> in_unit_interval (getVolume (setVolume v w))"
  by (cases v)
    (simp_all add: getVolume_def setVolume_def in_unit_interval_def Math_max_def Math_min_def)

lemma constructor_in_unit_interval:
  "iv \<noteq> Some NaN \<Longrightarrow> in_unit_interval (getVolume (snd (SoundEffectsPlayer paths iv w)))"
proof (cases iv)
  case None
  then show ?thesis
    by (simp add: getVolume_def SoundEffectsPlayer_def in_unit_interval_def Math_max_def Math_min_def
        Let_def)
next
  case (Some v)
  assume "iv \<noteq> Some NaN"
  with Some show ?thesis
    by (cases v)
      (simp_all add: getVolume_def SoundEffectsPlayer_def in_unit_interval_def Math_max_def
        Math_min_def Let_def)
qed

lemma setVolume_NaN: "getVolume (setVolume NaN w) = NaN \<and> \<not> in_unit_interval NaN"
  by (simp add: getVolume_def setVolume_def in_unit_interval_def Math_max_def Math_min_def)

text \<open>The two play operations on the small page, evaluated.\<close>

lemma demo_playSound:
  "playSound demo_player ''a'' vol lp demo_world =
     (Some 1,
      demo_world\<lparr>heap := heap demo_world @
          [\<lparr>src = ''a.mp3'', preload = ''auto'',
            volume = (case vol of Some v \<Rightarrow> v | None \<Rightarrow> Fin (7 / 10)), loop = lp,
            currentTime = Fin 0, paused = True, loads = 0\<rparr>],
        timers := [\<lparr>callback = StartSound 1 ''a'', delay = Fin 0\<rparr>]\<rparr>)"
  by (cases vol)
    (simp_all add: playSound_def ensure_loaded_def new_Audio_def modify_def setTimeout_def
      demo_world_eq demo_player_eq)

lemma demo_select: "selectSample [half_second] 0 = Inr half_second"
  by (simp add: selectSample_def Math_floor_def to_double_def)

lemma demo_playSoundSample:
  "playSoundSample demo_player ''a'' [half_second] vol 0 demo_world =
     (Inr (Some 1),
      demo_world\<lparr>heap := heap demo_world @
          [\<lparr>src = ''a.mp3'', preload = ''auto'',
            volume = (case vol of Some v \<Rightarrow> v | None \<Rightarrow> Fin (7 / 10)), loop = False,
            currentTime = Fin 2, paused = True, loads = 0\<rparr>],
        timers := [\<lparr>callback = StartSample 1 ''a'' half_second, delay = Fin 0\<rparr>]\<rparr>)"
  by (cases vol)
    (simp_all add: playSoundSample_def ensure_loaded_def new_Audio_def modify_def setTimeout_def
      demo_world_eq demo_player_eq demo_select, simp_all add: half_second_def page_samples_def)

text \<open>
  Claim C2 says that every assignment of a volume stores a value clamped to the unit
  interval, the per-call override included. The code does not clamp the override
  (lines 94 and 134), while the constructor and \<^verbatim>\<open>setVolume\<close> do (lines 38 and 190):
  \<^verbatim>\<open>playSound("a", 5)\<close> and \<^verbatim>\<open>playSoundSample("a", samples, 5)\<close> write the volume
  5 onto the new instance, where the clamp would have stored 1.
\<close>

theorem volume_override_stored_unclamped:
  "fst (playSound demo_player ''a'' (Some (Fin 5)) False demo_world) = Some 1
   \<and> volume (heap (snd (playSound demo_player ''a'' (Some (Fin 5)) False demo_world)) ! 1) = Fin 5
   \<and> fst (playSoundSample demo_player ''a'' [half_second] (Some (Fin 5)) 0 demo_world)
       = Inr (Some 1)
   \<and> volume (heap (snd (playSoundSample demo_player ''a'' [half_second] (Some (Fin 5)) 0
       demo_world)) ! 1) = Fin 5
   \<and> \<not> in_unit_interval (Fin 5)
   \<and> spec_clamp (Fin 5) (Fin 0) (Fin 1) = Fin 1"
  by (simp add: demo_playSound demo_playSoundSample in_unit_interval_def spec_clamp_def)
    (simp add: demo_world_eq)


section \<open>An empty sequence of samples\<close>

text \<open>
  Claim C4 says that a sample playback call with an empty sequence of samples signals
  an explicit \<open>EmptySampleSet\<close> error and returns an empty result, rather than
  reading outside the sequence. The code has no such check: line 137 reads
  \<^verbatim>\<open>samples[0]\<close> of the empty array, which is \<^verbatim>\<open>undefined\<close>, and line 140 throws
  a TypeError to the caller. No diagnostic is written and no timer is set; the new
  element has been created by then.
\<close>

theorem empty_samples_throw_TypeError:
  "fst (playSoundSample demo_player ''a'' [] None 0 demo_world) = Inl TypeError
   \<and> console (snd (playSoundSample demo_player ''a'' [] None 0 demo_world)) = []
   \<and> timers (snd (playSoundSample demo_player ''a'' [] None 0 demo_world)) = []
   \<and> sampleCollections (demo_registered []) ''a'' = Some []
   \<and> fst (playRegisteredSample (demo_registered []) ''a'' None 0 demo_world) = Inl TypeError"
  by (simp add: playSoundSample_def playRegisteredSample_def demo_registered_eq
      ensure_loaded_def new_Audio_def modify_def selectSample_empty demo_world_eq demo_player_eq)

lemma empty_samples_always_throw:
  assumes "\<not> muted w" and "audioCache (ensure_loaded p key w) key \<noteq> None"
  shows "fst (playSoundSample p key [] vol r w) = Inl TypeError"
  using assms
  by (auto simp: playSoundSample_def Let_def selectSample_empty case_prod_beta)


section \<open>Rounding to the nearest double\<close>

lemma expo_bounds:
  "0 < x \<Longrightarrow> 2 powi (expo x) \<le> x \<and> x < 2 powi (expo x + 1)"
proof (induction x rule: expo.induct)
  case (1 x)
  show ?case
  proof (cases "2 \<le> x")
    case True
    with 1 have ih: "2 powi (expo (x / 2)) \<le> x / 2 \<and> x / 2 < 2 powi (expo (x / 2) + 1)"
      by simp
    have e: "expo x = expo (x / 2) + 1"
      using True by (subst expo.simps) simp
    show ?thesis
      using ih by (simp add: e power_int_add field_simps)
  next
    case False
    show ?thesis
    proof (cases "x < 1")
      case True
      with 1 False have ih: "2 powi (expo (2 * x)) \<le> 2 * x \<and> 2 * x < 2 powi (expo (2 * x) + 1)"
        by simp
      have e: "expo x = expo (2 * x) - 1"
        using True False 1 by (subst expo.simps) simp
      show ?thesis
        using ih by (simp add: e power_int_add power_int_diff field_simps)
    next
      case nl: False
      have e: "expo x = 0"
        using nl False by (subst expo.simps) simp
      show ?thesis
        using nl False by (simp add: e)
    qed
  qed
qed


lemma round_half_even_error: "\<bar>of_int (round_half_even m) - m\<bar> \<le> 1 / 2"
  unfolding round_half_even_def Let_def by (auto; linarith)

lemma to_double_nearest:
  assumes lo: "1 / 2 ^ 1022 \<le> \<bar>x\<bar>" and hi: "\<bar>x\<bar> < 2 ^ 1023"
  shows "\<exists>y e n. to_double x = Fin y
     \<and> 2 powi e \<le> \<bar>x\<bar> \<and> \<bar>x\<bar> < 2 powi (e + 1)
     \<and> y = of_int n * 2 powi (e - 52) \<and> \<bar>n\<bar> \<le> 2 ^ 53
     \<and> \<bar>y - x\<bar> \<le> 2 powi (e - 53)"
proof -
  define e where "e = expo \<bar>x\<bar>"
  define ulp :: real where "ulp = 2 powi (e - 52)"
  define n where "n = round_half_even (x / ulp)"
  define y where "y = of_int n * ulp"
  from lo have pos: "0 < \<bar>x\<bar>"
    by (smt (verit) divide_pos_pos zero_less_power)
  then have x0: "x \<noteq> 0" by simp
  from expo_bounds [OF pos] have b: "2 powi e \<le> \<bar>x\<bar>" "\<bar>x\<bar> < 2 powi (e + 1)"
    by (simp_all add: e_def)
  have "(2::real) powi (- 1022) < 2 powi (e + 1)"
    using lo b(2) by (simp add: power_int_minus_divide)
  then have elo: "- 1022 \<le> e"
    using power_int_increasing [of "e + 1" "- 1022" "2::real"] by force
  have "(2::real) powi e < 2 powi 1023"
    using hi b(1) by simp
  then have ehi: "e \<le> 1022"
    using power_int_increasing [of 1023 e "2::real"] by force
  have ulp_pos: "0 < ulp" by (simp add: ulp_def)
  have half: "ulp / 2 = 2 powi (e - 53)"
    by (simp add: ulp_def power_int_diff)
  have "\<bar>y - x\<bar> = ulp * \<bar>of_int n - x / ulp\<bar>"
    using ulp_pos by (simp add: y_def abs_mult [symmetric] field_simps)
  also have "\<dots> \<le> ulp * (1 / 2)"
    using round_half_even_error [of "x / ulp"] ulp_pos by (simp add: n_def)
  finally have err: "\<bar>y - x\<bar> \<le> 2 powi (e - 53)"
    using half by simp
  have "(2::real) powi (e - 53) \<le> 2 powi 969"
    using ehi by (intro power_int_increasing) simp_all
  with err hi have "\<bar>y\<bar> < 2 ^ 1023 + 2 ^ 969"
    by simp
  then have small: "\<not> 2 ^ 1024 \<le> \<bar>y\<bar>"
    by simp
  have td: "to_double x = Fin y"
    using x0 elo small
    by (simp add: to_double_def Let_def e_def [symmetric] max_def ulp_def [symmetric]
        n_def [symmetric] y_def [symmetric])
  have "\<bar>x / ulp\<bar> < 2 ^ 53"
  proof -
    have "\<bar>x\<bar> < 2 powi (e + 1)" by (rule b(2))
    also have "\<dots> = 2 ^ 53 * ulp"
      by (simp add: ulp_def power_int_diff power_int_add)
    finally show ?thesis
      using ulp_pos by (simp add: field_simps)
  qed
  with round_half_even_error [of "x / ulp"] have "\<bar>of_int n :: real\<bar> \<le> 2 ^ 53 + 1 / 2"
    unfolding n_def by linarith
  then have "(of_int \<bar>n\<bar> :: real) < of_int (2 ^ 53 + 1)"
    by simp
  then have "\<bar>n\<bar> < 2 ^ 53 + 1"
    by (simp only: of_int_less_iff)
  then have nb: "\<bar>n\<bar> \<le> 2 ^ 53"
    by simp
  from td b err nb show ?thesis
    unfolding y_def ulp_def by blast
qed

lemma round_half_even_ge: "of_int k \<le> m \<Longrightarrow> k \<le> round_half_even m"
  unfolding round_half_even_def Let_def by (auto; linarith)

lemma round_half_even_le: "m \<le> of_int k \<Longrightarrow> round_half_even m \<le> k"
  unfolding round_half_even_def Let_def by (auto; linarith)

lemma to_double_overflow:
  assumes "2 ^ 1024 \<le> \<bar>x\<bar>"
  shows "to_double x = (if 0 < x then PosInf else NegInf)"
proof -
  define e where "e = expo \<bar>x\<bar>"
  define ulp :: real where "ulp = 2 powi (e - 52)"
  define n where "n = round_half_even (x / ulp)"
  from assms have pos: "0 < \<bar>x\<bar>"
    by (smt (verit) zero_less_power)
  then have x0: "x \<noteq> 0" by simp
  from expo_bounds [OF pos] have b: "2 powi e \<le> \<bar>x\<bar>" "\<bar>x\<bar> < 2 powi (e + 1)"
    by (simp_all add: e_def)
  have "(2::real) powi 1024 < 2 powi (e + 1)"
    using assms b(2) by simp
  then have elo: "1024 \<le> e"
    using power_int_increasing [of "e + 1" 1024 "2::real"] by force
  have ulp_pos: "0 < ulp" by (simp add: ulp_def)
  have e_ulp: "2 powi e = 2 ^ 52 * ulp"
    by (simp add: ulp_def power_int_diff)
  have big: "(2::real) ^ 1024 \<le> 2 powi e"
    using power_int_increasing [of 1024 e "2::real"] elo by simp
  have "(2::real) ^ 1024 \<le> \<bar>of_int n * ulp\<bar>"
  proof (cases "0 < x")
    case True
    with b(1) have "of_int (2 ^ 52) \<le> x / ulp"
      using ulp_pos by (simp add: e_ulp field_simps)
    then have "2 ^ 52 \<le> n"
      unfolding n_def by (rule round_half_even_ge)
    then have "(2::real) ^ 52 \<le> of_int n"
      by (metis of_int_le_iff of_int_numeral of_int_power)
    then have "2 ^ 52 * ulp \<le> of_int n * ulp"
      using ulp_pos by simp
    with big e_ulp have "2 ^ 1024 \<le> of_int n * ulp"
      by linarith
    then show ?thesis
      by linarith
  next
    case False
    with b(1) x0 have "x / ulp \<le> of_int (- (2 ^ 52))"
      using ulp_pos by (simp add: e_ulp field_simps)
    then have "n \<le> - (2 ^ 52)"
      unfolding n_def by (rule round_half_even_le)
    then have "of_int n \<le> - ((2::real) ^ 52)"
      by (metis of_int_le_iff of_int_minus of_int_numeral of_int_power)
    then have "of_int n * ulp \<le> - (2 ^ 52) * ulp"
      using ulp_pos by (intro mult_right_mono) simp_all
    with big e_ulp have "of_int n * ulp \<le> - (2 ^ 1024)"
      by linarith
    then show ?thesis
      by linarith
  qed
  then show ?thesis
    using x0 elo
    by (simp add: to_double_def Let_def e_def [symmetric] max_def ulp_def [symmetric]
        n_def [symmetric])
qed


text \<open>
  The delay of the stop timer, \<^verbatim>\<open>duration * 1000\<close>, for every duration: the double
  nearest to the exact product where that lies in the range of the normal doubles, an
  infinity from \<open>2 ^ 1024\<close> on, and the special values handed through.
\<close>

lemma times_1000:
  "(\<forall>d. x = Fin d \<and> 1 / 2 ^ 1022 \<le> \<bar>d * 1000\<bar> \<and> \<bar>d * 1000\<bar> < 2 ^ 1023 \<longrightarrow>
      (\<exists>y e n. num_times x (Fin 1000) = Fin y
         \<and> 2 powi e \<le> \<bar>d * 1000\<bar> \<and> \<bar>d * 1000\<bar> < 2 powi (e + 1)
         \<and> y = of_int n * 2 powi (e - 52) \<and> \<bar>n\<bar> \<le> 2 ^ 53
         \<and> \<bar>y - d * 1000\<bar> \<le> 2 powi (e - 53)))
   \<and> (\<forall>d. x = Fin d \<and> 2 ^ 1024 \<le> \<bar>d * 1000\<bar> \<longrightarrow>
         num_times x (Fin 1000) = (if 0 < d then PosInf else NegInf))
   \<and> (x = Fin 0 \<longrightarrow> num_times x (Fin 1000) = Fin 0)
   \<and> (x = NaN \<longrightarrow> num_times x (Fin 1000) = NaN)
   \<and> (x = PosInf \<longrightarrow> num_times x (Fin 1000) = PosInf)
   \<and> (x = NegInf \<longrightarrow> num_times x (Fin 1000) = NegInf)"
proof (intro conjI allI impI)
  fix d
  assume "x = Fin d \<and> 1 / 2 ^ 1022 \<le> \<bar>d * 1000\<bar> \<and> \<bar>d * 1000\<bar> < 2 ^ 1023"
  then show "\<exists>y e n. num_times x (Fin 1000) = Fin y
         \<and> 2 powi e \<le> \<bar>d * 1000\<bar> \<and> \<bar>d * 1000\<bar> < 2 powi (e + 1)
         \<and> y = of_int n * 2 powi (e - 52) \<and> \<bar>n\<bar> \<le> 2 ^ 53
         \<and> \<bar>y - d * 1000\<bar> \<le> 2 powi (e - 53)"
    using to_double_nearest [of "d * 1000"] by simp
next
  fix d
  assume "x = Fin d \<and> 2 ^ 1024 \<le> \<bar>d * 1000\<bar>"
  then show "num_times x (Fin 1000) = (if 0 < d then PosInf else NegInf)"
    using to_double_overflow [of "d * 1000"] by (simp add: zero_less_mult_iff)
qed (simp_all add: to_double_def)


text \<open>
  A double from 0 up to, not including, 1 is at most \<open>1 - 1 / 2 ^ 53\<close>, and its
  rounded product with the length of a non-empty array lies below the length: line 137
  always reads an element of such an array.
\<close>

lemma double_below_one:
  assumes "0 \<le> r" and "r < 1" and dbl: "to_double r = Fin r"
  shows "r \<le> 1 - 1 / 2 ^ 53"
proof (cases "r < 1 / 2")
  case True
  then show ?thesis by simp
next
  case False
  then have pos: "0 < r" by simp
  define e where "e = expo r"
  from expo_bounds [OF pos] have b: "2 powi e \<le> r" "r < 2 powi (e + 1)"
    by (simp_all add: e_def)
  have "e < 0"
  proof (rule ccontr)
    assume "\<not> e < 0"
    then have "(2::real) powi 0 \<le> 2 powi e"
      by (intro power_int_increasing) simp_all
    with b(1) \<open>r < 1\<close> show False by simp
  qed
  moreover have "(2::real) powi (- 1) < 2 powi (e + 1)"
    using b(2) False by (simp add: power_int_minus_divide)
  then have "- 1 < e + 1"
    using power_int_increasing [of "e + 1" "- 1" "2::real"] by force
  ultimately have e: "e = - 1" by simp
  define n where "n = round_half_even (r * 2 ^ 53)"
  have "to_double r = Fin (of_int n / 2 ^ 53) \<or> to_double r = PosInf"
    using pos e
    by (simp add: to_double_def Let_def e_def [symmetric] n_def power_int_minus_divide)
  with dbl have r: "r = of_int n / 2 ^ 53"
    by simp
  with \<open>r < 1\<close> have "(of_int n :: real) < of_int (2 ^ 53)"
    by (simp add: field_simps)
  then have "n < 2 ^ 53"
    by (simp only: of_int_less_iff)
  then have "n \<le> 2 ^ 53 - 1"
    by simp
  then have "(of_int n :: real) \<le> of_int (2 ^ 53 - 1)"
    by (simp only: of_int_le_iff)
  then show ?thesis
    by (simp add: r field_simps)
qed

lemma product_below_length:
  assumes r: "0 \<le> r" "r \<le> 1 - 1 / 2 ^ 53" and n: "0 < n" "n < 2 ^ 53"
  shows "\<exists>y. to_double (r * real n) = Fin y \<and> 0 \<le> y \<and> y < real n"
proof (cases "r * real n = 0")
  case True
  with n show ?thesis
    by (simp add: to_double_def)
next
  case False
  define x where "x = r * real n"
  from False have "r \<noteq> 0" by auto
  with r(1) have "0 < r" by simp
  with n(1) have pos: "0 < x"
    by (simp add: x_def)
  have xn: "x \<le> real n * (1 - 1 / 2 ^ 53)"
    using r n by (simp add: x_def mult.commute mult_left_mono)
  define e where "e = max (expo x) (- 1022)"
  define ulp :: real where "ulp = 2 powi (e - 52)"
  define k where "k = round_half_even (x / ulp)"
  define y where "y = of_int k * ulp"
  have ulp_pos: "0 < ulp" by (simp add: ulp_def)
  from expo_bounds [OF pos] have b: "2 powi (expo x) \<le> x" "x < 2 powi (expo x + 1)"
    by simp_all
  have "of_int 0 \<le> x / ulp"
    using pos ulp_pos by simp
  then have "0 \<le> k"
    unfolding k_def by (rule round_half_even_ge)
  then have y0: "0 \<le> y"
    using ulp_pos by (simp add: y_def)
  have "\<bar>y - x\<bar> = ulp * \<bar>of_int k - x / ulp\<bar>"
    using ulp_pos by (simp add: y_def abs_mult [symmetric] field_simps)
  also have "\<dots> \<le> ulp * (1 / 2)"
    using round_half_even_error [of "x / ulp"] ulp_pos by (simp add: k_def)
  finally have err: "y \<le> x + ulp / 2"
    by linarith
  have yn: "y < real n"
  proof (cases "- 1022 \<le> expo x")
    case True
    then have "e = expo x" by (simp add: e_def)
    then have "ulp / 2 = 2 powi (expo x) / 2 ^ 53"
      by (simp add: ulp_def power_int_diff)
    also have "\<dots> \<le> x / 2 ^ 53"
      using b(1) by (simp add: divide_right_mono)
    finally have "y \<le> x * (1 + 1 / 2 ^ 53)"
      using err by (simp add: algebra_simps)
    also have "\<dots> \<le> real n * (1 - 1 / 2 ^ 53) * (1 + 1 / 2 ^ 53)"
      using xn by (intro mult_right_mono) simp_all
    also have "\<dots> < real n"
      using n by (simp add: algebra_simps)
    finally show ?thesis .
  next
    case False
    then have e: "e = - 1022" by (simp add: e_def)
    from False have "expo x + 1 \<le> - 1022" by simp
    then have "(2::real) powi (expo x + 1) \<le> 2 powi (- 1022)"
      by (intro power_int_increasing) simp_all
    with b(2) have "x < 2 powi (- 1022)" by simp
    then have "x < 1 / 2"
      by (simp add: power_int_minus_divide)
    moreover have "ulp / 2 \<le> 1 / 2"
      using power_int_increasing [of "- 1074" 0 "2::real"] by (simp add: ulp_def e)
    ultimately have "y < 1" using err by simp
    with n show ?thesis by simp
  qed
  have "real n < 2 ^ 1024"
  proof -
    have "real n < real (2 ^ 53)" using n by (simp only: of_nat_less_iff)
    also have "\<dots> \<le> 2 ^ 1024" by simp
    finally show ?thesis .
  qed
  with yn y0 have small: "\<not> 2 ^ 1024 \<le> \<bar>y\<bar>"
    by simp
  have "to_double x = Fin y"
    using pos small
    by (simp add: to_double_def Let_def e_def [symmetric] ulp_def [symmetric]
        k_def [symmetric] y_def [symmetric])
  with y0 yn show ?thesis
    unfolding x_def by blast
qed

lemma selectSample_in_range:
  assumes "0 \<le> r" and "r < 1" and "to_double r = Fin r"
    and "samples \<noteq> []" and "length samples < 2 ^ 53"
  shows "\<exists>smp. selectSample samples r = Inr smp \<and> smp \<in> set samples"
proof -
  from assms have n: "0 < length samples" by simp
  from product_below_length [OF assms(1) double_below_one [OF assms(1-3)] n assms(5)]
  obtain y where y: "to_double (r * real (length samples)) = Fin y" "0 \<le> y"
    "y < real (length samples)"
    by blast
  then have "0 \<le> \<lfloor>y\<rfloor>" and "\<lfloor>y\<rfloor> < int (length samples)"
    by linarith+
  then have "0 \<le> (of_int \<lfloor>y\<rfloor> :: real)" and "(of_int \<lfloor>y\<rfloor> :: real) < real (length samples)"
    by (simp, metis of_int_less_iff of_int_of_nat_eq)
  with y(1) have "selectSample samples r = Inr (samples ! nat \<lfloor>y\<rfloor>)"
    by (simp add: selectSample_def Math_floor_def)
  then show ?thesis
    using selectSample_member by blast
qed


section \<open>Sample playback: the cursor, the start and the stop\<close>

text \<open>
  Running the closure of a start action in any state, and firing its timer, and then
  the timer of the stop action it has set, when each is the last of the pending timers.
\<close>

lemma start_sample_callback:
  "timers (run_callback (StartSample i key smp) ok u) =
     timers u @ [\<lparr>callback = StopSound i,
                  delay = num_times (duration (sampleObjects u smp)) (Fin 1000)\<rparr>]"
  "heap (run_callback (StartSample i key smp) ok u) =
     (if ok then (heap u)[i := (heap u ! i)\<lparr>paused := False\<rparr>] else heap u)"
  "sampleObjects (run_callback (StartSample i key smp) ok u) = sampleObjects u"
  by (simp_all add: Let_def setTimeout_def issue_play_def modify_def console_log_def)

lemma fire_last:
  assumes "timers w' = ts @ [t]"
  shows "fire_timer (length ts) ok w' = run_callback (callback t) ok (w'\<lparr>timers := ts\<rparr>)"
  using assms by (simp add: fire_timer_def nth_append)

lemma fire_start_sample:
  assumes "timers w' = ts @ [\<lparr>callback = StartSample i key smp, delay = d\<rparr>]"
  shows "timers (fire_timer (length ts) ok w') =
      ts @ [\<lparr>callback = StopSound i,
             delay = num_times (duration (sampleObjects w' smp)) (Fin 1000)\<rparr>]"
    and "heap (fire_timer (length ts) ok w') =
      (if ok then (heap w')[i := (heap w' ! i)\<lparr>paused := False\<rparr>] else heap w')"
  by (simp_all only: fire_last [OF assms] timer.simps start_sample_callback) simp_all

lemma fire_stop:
  assumes "timers u = ts @ [\<lparr>callback = StopSound i, delay = d\<rparr>]"
    and "i < length (heap u)"
  shows "timers (fire_timer (length ts) ok u) = ts"
    and "paused (heap (fire_timer (length ts) ok u) ! i)"
    and "currentTime (heap (fire_timer (length ts) ok u) ! i) = Fin 0"
  using assms
  by (simp_all add: fire_timer_def nth_append stopSound_def modify_def)

lemma stop_callback_heap:
  "i < length (heap u) \<Longrightarrow>
     paused (heap (run_callback (StopSound i) ok u) ! i)
     \<and> currentTime (heap (run_callback (StopSound i) ok u) ! i) = Fin 0"
  by (simp add: stopSound_def modify_def)

lemma playRegisteredSample_delegates:
  "sampleCollections p key = Some samples \<Longrightarrow>
     playRegisteredSample p key vol r w = playSoundSample p key samples vol r w"
  by (simp add: playRegisteredSample_def)

lemma playSoundSample_returns_instance:
  assumes "\<not> muted w" and "audioCache (ensure_loaded p key w) key = Some a"
    and "selectSample samples r = Inr smp"
  shows "fst (playSoundSample p key samples vol r w) =
     Inr (Some (length (heap (ensure_loaded p key w))))"
  using assms
  by (simp add: playSoundSample_def Let_def new_Audio_def case_prod_beta)

text \<open>
  The value \<open>two_thirds\<close> of \<^verbatim>\<open>Math.random()\<close> is a double below 1. With three
  samples, line 137 selects the last one: the exact product lies below 2, and the
  product that \<^verbatim>\<open>*\<close> returns is 2.
\<close>

lemma two_thirds_double:
  "0 \<le> two_thirds" "two_thirds < 1" "to_double two_thirds = Fin two_thirds"
  by (simp_all add: two_thirds_def to_double_def expo.simps round_half_even_def)

lemma two_thirds_of_three:
  "\<lfloor>two_thirds * 3\<rfloor> = 1" "num_times (Fin two_thirds) (Fin 3) = Fin 2"
  "selectSample three_samples two_thirds = Inr 2"
  by (simp_all add: two_thirds_def three_samples_def selectSample_def Math_floor_def
      to_double_def expo.simps round_half_even_def)

lemma demo_three_samples:
  "playSoundSample p ''a'' three_samples None two_thirds demo_world =
     (Inr (Some 1),
      demo_world\<lparr>heap := heap demo_world @
          [\<lparr>src = ''a.mp3'', preload = ''auto'', volume = Fin (7 / 10), loop = False,
            currentTime = Fin 4, paused = True, loads = 0\<rparr>],
        timers := [\<lparr>callback = StartSample 1 ''a'' 2, delay = Fin 0\<rparr>]\<rparr>)"
  by (simp add: playSoundSample_def ensure_loaded_def new_Audio_def modify_def setTimeout_def
      demo_world_eq two_thirds_of_three page_samples_def)

text \<open>
  Claim C9: for every call of \<^verbatim>\<open>playSoundSample\<close> that returns an instance, the
  instance's play cursor is at the selected sample's start offset before the start of
  playback is issued: in the state the call returns, the cursor is there, the instance
  is still paused and its start action is the last pending timer; and when that timer
  fires next, the cursor is still there. The selected sample is the element that line
  137 reads, at the index \<^verbatim>\<open>Math.floor(Math.random() * samples.length)\<close>, and with
  a single-element sequence (and a value of \<^verbatim>\<open>Math.random()\<close>, a double from 0 up
  to, not including, 1) it is that element: an unmuted call for a key that is or can be
  loaded then returns an instance with its cursor at that element's start.
\<close>

theorem playSoundSample_cursor_at_start:
  "(playSoundSample p key samples vol r w = (Inr (Some i), w') \<longrightarrow>
      (\<exists>smp k. selectSample samples r = Inr smp
         \<and> Math_floor (num_times (Fin r) (Fin (real (length samples)))) = Fin (real k)
         \<and> k < length samples \<and> smp = samples ! k
         \<and> currentTime (heap w' ! i) = start (sampleObjects w smp)
         \<and> paused (heap w' ! i)
         \<and> timers w' = timers w @ [\<lparr>callback = StartSample i key smp, delay = Fin 0\<rparr>]
         \<and> (\<forall>ok. currentTime (heap (fire_timer (length (timers w)) ok w') ! i)
               = start (sampleObjects w smp))))
   \<and> (0 \<le> r \<and> r < 1 \<and> to_double r = Fin r \<longrightarrow> selectSample [x] r = Inr x)
   \<and> (0 \<le> r \<and> r < 1 \<and> to_double r = Fin r
        \<and> playSoundSample p key [x] vol r w = (Inr (Some i), w') \<longrightarrow>
        currentTime (heap w' ! i) = start (sampleObjects w x))
   \<and> (0 \<le> r \<and> r < 1 \<and> to_double r = Fin r
        \<and> \<not> muted w \<and> audioCache (ensure_loaded p key w) key \<noteq> None \<longrightarrow>
        (\<exists>j v. playSoundSample p key [x] vol r w = (Inr (Some j), v)
           \<and> currentTime (heap v ! j) = start (sampleObjects w x)))"
proof (intro conjI impI)
  assume call: "playSoundSample p key samples vol r w = (Inr (Some i), w')"
  from playSoundSample_instance [OF call] obtain smp where
    sel: "selectSample samples r = Inr smp" and len: "length (heap w') = Suc i"
    and cur: "currentTime (heap w' ! i) = start (sampleObjects w smp)"
    and pau: "paused (heap w' ! i)"
    and tim: "timers w' = timers w @ [\<lparr>callback = StartSample i key smp, delay = Fin 0\<rparr>]"
    by blast
  from sel obtain y where fl: "Math_floor (num_times (Fin r) (Fin (real (length samples)))) = Fin y"
    and y: "0 \<le> y" "y < real (length samples)" and smp: "smp = samples ! nat \<lfloor>y\<rfloor>"
    by (auto simp: selectSample_def split: number.splits if_splits)
  from fl have "y = of_int \<lfloor>y\<rfloor>"
    by (auto simp: Math_floor_def split: number.splits)
  with y have yk: "y = real (nat \<lfloor>y\<rfloor>)" and k: "nat \<lfloor>y\<rfloor> < length samples"
    by linarith+
  have fired: "currentTime (heap (fire_timer (length (timers w)) ok w') ! i)
      = start (sampleObjects w smp)" for ok
    using len cur by (simp add: fire_start_sample(2) [OF tim])
  from sel fl yk k smp cur pau tim fired
  show "\<exists>smp k. selectSample samples r = Inr smp
         \<and> Math_floor (num_times (Fin r) (Fin (real (length samples)))) = Fin (real k)
         \<and> k < length samples \<and> smp = samples ! k
         \<and> currentTime (heap w' ! i) = start (sampleObjects w smp)
         \<and> paused (heap w' ! i)
         \<and> timers w' = timers w @ [\<lparr>callback = StartSample i key smp, delay = Fin 0\<rparr>]
         \<and> (\<forall>ok. currentTime (heap (fire_timer (length (timers w)) ok w') ! i)
               = start (sampleObjects w smp))"
    by metis
next
  assume "0 \<le> r \<and> r < 1 \<and> to_double r = Fin r"
  then show "selectSample [x] r = Inr x"
    by (simp add: selectSample_single)
next
  assume h: "0 \<le> r \<and> r < 1 \<and> to_double r = Fin r
      \<and> playSoundSample p key [x] vol r w = (Inr (Some i), w')"
  then have "selectSample [x] r = Inr x"
    by (simp add: selectSample_single)
  with playSoundSample_instance [of p key "[x]" vol r w i w'] h
  show "currentTime (heap w' ! i) = start (sampleObjects w x)"
    by auto
next
  assume h: "0 \<le> r \<and> r < 1 \<and> to_double r = Fin r
      \<and> \<not> muted w \<and> audioCache (ensure_loaded p key w) key \<noteq> None"
  then have sel: "selectSample [x] r = Inr x"
    by (simp add: selectSample_single)
  from h obtain a where "audioCache (ensure_loaded p key w) key = Some a"
    by auto
  with h sel have "fst (playSoundSample p key [x] vol r w)
      = Inr (Some (length (heap (ensure_loaded p key w))))"
    by (simp add: playSoundSample_returns_instance)
  then obtain j v where call: "playSoundSample p key [x] vol r w = (Inr (Some j), v)"
    by (metis prod.collapse)
  with playSoundSample_instance [OF call] sel
  show "\<exists>j v. playSoundSample p key [x] vol r w = (Inr (Some j), v)
      \<and> currentTime (heap v ! j) = start (sampleObjects w x)"
    by auto
qed

theorem playSoundSample_cursor_at_start_witness:
  "playSoundSample demo_player ''a'' three_samples None two_thirds demo_world
     = (Inr (Some 1), snd (playSoundSample demo_player ''a'' three_samples None two_thirds demo_world))
   \<and> selectSample three_samples two_thirds = Inr 2
   \<and> currentTime (heap (snd (playSoundSample demo_player ''a'' three_samples None two_thirds
        demo_world)) ! 1) = Fin 4
   \<and> paused (heap (snd (playSoundSample demo_player ''a'' three_samples None two_thirds
        demo_world)) ! 1)
   \<and> currentTime (heap (fire_timer 0 True (snd (playSoundSample demo_player ''a'' three_samples
        None two_thirds demo_world))) ! 1) = Fin 4
   \<and> 0 \<le> two_thirds \<and> two_thirds < 1 \<and> to_double two_thirds = Fin two_thirds
   \<and> \<not> muted demo_world
   \<and> audioCache (ensure_loaded demo_player ''a'' demo_world) ''a'' \<noteq> None
   \<and> selectSample [half_second] two_thirds = Inr half_second
   \<and> playSoundSample demo_player ''a'' [half_second] None two_thirds demo_world
       = (Inr (Some 1),
          snd (playSoundSample demo_player ''a'' [half_second] None two_thirds demo_world))
   \<and> currentTime (heap (snd (playSoundSample demo_player ''a'' [half_second] None two_thirds
        demo_world)) ! 1) = Fin 2"
proof -
  let ?w3 = "snd (playSoundSample demo_player ''a'' three_samples None two_thirds demo_world)"
  let ?w1 = "snd (playSoundSample demo_player ''a'' [half_second] None two_thirds demo_world)"
  note r = two_thirds_double
  have call3: "playSoundSample demo_player ''a'' three_samples None two_thirds demo_world
      = (Inr (Some 1), ?w3)"
    by (simp add: demo_three_samples)
  have sel1: "selectSample [half_second] two_thirds = Inr half_second"
    using r by (simp add: selectSample_single)
  have call1: "playSoundSample demo_player ''a'' [half_second] None two_thirds demo_world
      = (Inr (Some 1), ?w1)"
    by (rule prod_eqI)
      (simp_all add: playSoundSample_def ensure_loaded_def new_Audio_def modify_def
        setTimeout_def demo_world_eq sel1)
  have t: "timers demo_world = []"
    and s: "start (sampleObjects demo_world 2) = Fin 4"
      "start (sampleObjects demo_world half_second) = Fin 2"
    by (simp_all add: demo_world_eq page_samples_def half_second_def)
  from playSoundSample_cursor_at_start
    [of demo_player "''a''" "three_samples" None two_thirds demo_world 1 ?w3 half_second]
    call3 t s two_thirds_of_three(3)
  have three: "currentTime (heap ?w3 ! 1) = Fin 4 \<and> paused (heap ?w3 ! 1)
      \<and> currentTime (heap (fire_timer 0 True ?w3) ! 1) = Fin 4"
    by auto
  from playSoundSample_cursor_at_start
    [of demo_player "''a''" "[half_second]" None two_thirds demo_world 1 ?w1 half_second]
    call1 r s
  have one: "currentTime (heap ?w1 ! 1) = Fin 2"
    by simp
  have m: "\<not> muted demo_world"
    and c: "audioCache (ensure_loaded demo_player ''a'' demo_world) ''a'' \<noteq> None"
    by (simp_all add: demo_world_eq ensure_loaded_def)
  from call3 two_thirds_of_three(3) three r m c sel1 call1 one show ?thesis
    by blast
qed

text \<open>
  Claim C1: for every call of \<^verbatim>\<open>playSoundSample\<close>, direct or through
  \<^verbatim>\<open>playRegisteredSample\<close>, that returns an instance: the call sets the timer of
  the start action (delay 0) and no other; the start action, whenever it runs, issues
  the start and then sets the timer of the stop action, with the delay
  \<^verbatim>\<open>duration * 1000\<close> of the selected sample, so the delay counts from the issuance
  and the start is scheduled strictly before the stop; and the stop action pauses the
  instance and puts its cursor to 0. The duration is the one that the sample object
  holds when the start action runs, and the product is the one of the operator
  \<^verbatim>\<open>*\<close>: the double nearest to the exact product where that is in the range of
  the normal doubles, an infinity from \<open>2 ^ 1024\<close> on, and zero, NaN and the
  infinities handed through. The last conjunct runs the two timers one after the other
  on the state the call returned.
\<close>

theorem sample_stop_follows_start:
  assumes "playSoundSample p key samples vol r w = (Inr (Some i), w')
     \<or> (sampleCollections p key = Some samples
         \<and> playRegisteredSample p key vol r w = (Inr (Some i), w'))"
  shows "\<exists>smp. selectSample samples r = Inr smp
     \<and> timers w' = timers w @ [\<lparr>callback = StartSample i key smp, delay = Fin 0\<rparr>]
     \<and> (\<forall>ok u. \<exists>ms.
           timers (run_callback (StartSample i key smp) ok u) =
             timers u @ [\<lparr>callback = StopSound i, delay = ms\<rparr>]
           \<and> ms = num_times (duration (sampleObjects u smp)) (Fin 1000)
           \<and> (\<forall>d. duration (sampleObjects u smp) = Fin d
                 \<and> 1 / 2 ^ 1022 \<le> \<bar>d * 1000\<bar> \<and> \<bar>d * 1000\<bar> < 2 ^ 1023 \<longrightarrow>
                 (\<exists>y e n. ms = Fin y
                    \<and> 2 powi e \<le> \<bar>d * 1000\<bar> \<and> \<bar>d * 1000\<bar> < 2 powi (e + 1)
                    \<and> y = of_int n * 2 powi (e - 52) \<and> \<bar>n\<bar> \<le> 2 ^ 53
                    \<and> \<bar>y - d * 1000\<bar> \<le> 2 powi (e - 53)))
           \<and> (\<forall>d. duration (sampleObjects u smp) = Fin d \<and> 2 ^ 1024 \<le> \<bar>d * 1000\<bar> \<longrightarrow>
                 ms = (if 0 < d then PosInf else NegInf))
           \<and> (duration (sampleObjects u smp) = Fin 0 \<longrightarrow> ms = Fin 0)
           \<and> (duration (sampleObjects u smp) = NaN \<longrightarrow> ms = NaN)
           \<and> (duration (sampleObjects u smp) = PosInf \<longrightarrow> ms = PosInf)
           \<and> (duration (sampleObjects u smp) = NegInf \<longrightarrow> ms = NegInf))
     \<and> (\<forall>ok u. i < length (heap u) \<longrightarrow>
           paused (heap (run_callback (StopSound i) ok u) ! i)
           \<and> currentTime (heap (run_callback (StopSound i) ok u) ! i) = Fin 0)
     \<and> (\<forall>ok ok'.
           timers (fire_timer (length (timers w)) ok w') =
             timers w @ [\<lparr>callback = StopSound i,
                          delay = num_times (duration (sampleObjects w smp)) (Fin 1000)\<rparr>]
           \<and> paused (heap (fire_timer (length (timers w)) ok w') ! i) = (\<not> ok)
           \<and> timers (fire_timer (length (timers w)) ok'
                (fire_timer (length (timers w)) ok w')) = timers w
           \<and> paused (heap (fire_timer (length (timers w)) ok'
                (fire_timer (length (timers w)) ok w')) ! i)
           \<and> currentTime (heap (fire_timer (length (timers w)) ok'
                (fire_timer (length (timers w)) ok w')) ! i) = Fin 0)"
proof -
  from assms have call: "playSoundSample p key samples vol r w = (Inr (Some i), w')"
    by (auto simp: playRegisteredSample_delegates)
  from playSoundSample_instance [OF call] obtain smp where
    sel: "selectSample samples r = Inr smp" and len: "length (heap w') = Suc i"
    and pau: "paused (heap w' ! i)"
    and tim: "timers w' = timers w @ [\<lparr>callback = StartSample i key smp, delay = Fin 0\<rparr>]"
    and obj: "sampleObjects w' = sampleObjects w"
    by blast
  let ?n = "length (timers w)"
  let ?stop = "\<lparr>callback = StopSound i,
      delay = num_times (duration (sampleObjects w smp)) (Fin 1000)\<rparr>"
  have start: "\<exists>ms.
      timers (run_callback (StartSample i key smp) ok u) =
        timers u @ [\<lparr>callback = StopSound i, delay = ms\<rparr>]
      \<and> ms = num_times (duration (sampleObjects u smp)) (Fin 1000)
      \<and> (\<forall>d. duration (sampleObjects u smp) = Fin d
            \<and> 1 / 2 ^ 1022 \<le> \<bar>d * 1000\<bar> \<and> \<bar>d * 1000\<bar> < 2 ^ 1023 \<longrightarrow>
            (\<exists>y e n. ms = Fin y
               \<and> 2 powi e \<le> \<bar>d * 1000\<bar> \<and> \<bar>d * 1000\<bar> < 2 powi (e + 1)
               \<and> y = of_int n * 2 powi (e - 52) \<and> \<bar>n\<bar> \<le> 2 ^ 53
               \<and> \<bar>y - d * 1000\<bar> \<le> 2 powi (e - 53)))
      \<and> (\<forall>d. duration (sampleObjects u smp) = Fin d \<and> 2 ^ 1024 \<le> \<bar>d * 1000\<bar> \<longrightarrow>
            ms = (if 0 < d then PosInf else NegInf))
      \<and> (duration (sampleObjects u smp) = Fin 0 \<longrightarrow> ms = Fin 0)
      \<and> (duration (sampleObjects u smp) = NaN \<longrightarrow> ms = NaN)
      \<and> (duration (sampleObjects u smp) = PosInf \<longrightarrow> ms = PosInf)
      \<and> (duration (sampleObjects u smp) = NegInf \<longrightarrow> ms = NegInf)" for ok u
    using start_sample_callback(1) [of i key smp ok u]
      times_1000 [of "duration (sampleObjects u smp)"]
    by blast
  have t2: "timers (fire_timer ?n ok w') = timers w @ [?stop]" for ok
    using fire_start_sample(1) [OF tim] by (simp add: obj)
  have p2: "paused (heap (fire_timer ?n ok w') ! i) = (\<not> ok)" for ok
    using len pau by (simp add: fire_start_sample(2) [OF tim])
  have l2: "i < length (heap (fire_timer ?n ok w'))" for ok
    using len by (simp add: fire_start_sample(2) [OF tim])
  have t3: "timers (fire_timer ?n ok' (fire_timer ?n ok w')) = timers w" for ok ok'
    by (rule fire_stop(1) [OF t2 l2])
  have h3: "paused (heap (fire_timer ?n ok' (fire_timer ?n ok w')) ! i)
      \<and> currentTime (heap (fire_timer ?n ok' (fire_timer ?n ok w')) ! i) = Fin 0" for ok ok'
    using fire_stop(2) [OF t2 l2] fire_stop(3) [OF t2 l2] by blast
  show ?thesis
    using sel tim start stop_callback_heap t2 p2 t3 h3
    by (intro exI [of _ smp] conjI allI impI) auto
qed

theorem sample_stop_follows_start_witness:
  "playSoundSample demo_player ''a'' three_samples None two_thirds demo_world
     = (Inr (Some 1),
        snd (playSoundSample demo_player ''a'' three_samples None two_thirds demo_world))
   \<and> selectSample three_samples two_thirds = Inr 2
   \<and> timers (snd (playSoundSample demo_player ''a'' three_samples None two_thirds demo_world))
       = [\<lparr>callback = StartSample 1 ''a'' 2, delay = Fin 0\<rparr>]
   \<and> timers (fire_timer 0 True (snd (playSoundSample demo_player ''a'' three_samples None
         two_thirds demo_world)))
       = [\<lparr>callback = StopSound 1, delay = Fin 5000\<rparr>]
   \<and> paused (heap (fire_timer 0 True (snd (playSoundSample demo_player ''a'' three_samples None
         two_thirds demo_world))) ! 1) = False
   \<and> timers (fire_timer 0 True (fire_timer 0 True (snd (playSoundSample demo_player ''a''
         three_samples None two_thirds demo_world)))) = []
   \<and> paused (heap (fire_timer 0 True (fire_timer 0 True (snd (playSoundSample demo_player ''a''
         three_samples None two_thirds demo_world)))) ! 1)
   \<and> currentTime (heap (fire_timer 0 True (fire_timer 0 True (snd (playSoundSample demo_player
         ''a'' three_samples None two_thirds demo_world)))) ! 1) = Fin 0
   \<and> timers (run_callback (StartSample 1 ''a'' 2) True
         (write_duration 2 (Fin (2254051613498933 / 2 ^ 51)) demo_world))
       = [\<lparr>callback = StopSound 1, delay = Fin (1001 - 1 / 2 ^ 43)\<rparr>]
   \<and> timers (run_callback (StartSample 1 ''a'' 2) True
         (write_duration 2 (Fin (2 ^ 1020)) demo_world))
       = [\<lparr>callback = StopSound 1, delay = PosInf\<rparr>]
   \<and> timers (run_callback (StartSample 1 ''a'' 2) True (write_duration 2 NaN demo_world))
       = [\<lparr>callback = StopSound 1, delay = NaN\<rparr>]
   \<and> sampleCollections (demo_registered three_samples) ''a'' = Some three_samples
   \<and> playRegisteredSample (demo_registered three_samples) ''a'' None two_thirds demo_world
       = (Inr (Some 1), snd (playRegisteredSample (demo_registered three_samples)
           ''a'' None two_thirds demo_world))
   \<and> timers (fire_timer 0 False (snd (playRegisteredSample
         (demo_registered three_samples) ''a'' None two_thirds demo_world)))
       = [\<lparr>callback = StopSound 1, delay = Fin 5000\<rparr>]"
proof -
  let ?w' = "snd (playSoundSample demo_player ''a'' three_samples None two_thirds demo_world)"
  let ?p = "demo_registered three_samples"
  let ?v' = "snd (playRegisteredSample ?p ''a'' None two_thirds demo_world)"
  let ?u1 = "write_duration 2 (Fin (2254051613498933 / 2 ^ 51)) demo_world"
  let ?u2 = "write_duration 2 (Fin (2 ^ 1020)) demo_world"
  let ?u3 = "write_duration 2 NaN demo_world"
  note sel = two_thirds_of_three(3)
  have t: "timers demo_world = []"
    and d: "duration (sampleObjects demo_world 2) = Fin 5"
    by (simp_all add: demo_world_eq page_samples_def)
  have ms: "num_times (Fin 5) (Fin 1000) = Fin 5000"
    by (simp add: to_double_def expo.simps round_half_even_def)
  have u: "timers ?u1 = []" "timers ?u2 = []" "timers ?u3 = []"
    "duration (sampleObjects ?u1 2) = Fin (2254051613498933 / 2 ^ 51)"
    "duration (sampleObjects ?u2 2) = Fin (2 ^ 1020)"
    "duration (sampleObjects ?u3 2) = NaN"
    by (simp_all add: write_duration_def t)
  have ms1: "num_times (Fin (2254051613498933 / 2 ^ 51)) (Fin 1000) = Fin (1001 - 1 / 2 ^ 43)"
    by (simp add: to_double_def expo.simps round_half_even_def)
  have big: "(2::real) ^ 1024 \<le> \<bar>2 ^ 1020 * 1000\<bar>"
    by simp
  have call: "playSoundSample demo_player ''a'' three_samples None two_thirds demo_world
      = (Inr (Some 1), ?w')"
    by (simp add: demo_three_samples)
  have reg: "sampleCollections ?p ''a'' = Some three_samples"
    by (simp add: demo_registered_eq)
  have rcall: "playRegisteredSample ?p ''a'' None two_thirds demo_world = (Inr (Some 1), ?v')"
    by (simp add: playRegisteredSample_def reg demo_three_samples)
  from sample_stop_follows_start [OF disjI1 [OF call]] sel
  have fact: "timers ?w' = timers demo_world @ [\<lparr>callback = StartSample 1 ''a'' 2, delay = Fin 0\<rparr>]"
    and start: "\<And>ok u. \<exists>ms.
        timers (run_callback (StartSample 1 ''a'' 2) ok u) =
          timers u @ [\<lparr>callback = StopSound 1, delay = ms\<rparr>]
        \<and> ms = num_times (duration (sampleObjects u 2)) (Fin 1000)
        \<and> (\<forall>d. duration (sampleObjects u 2) = Fin d \<and> 2 ^ 1024 \<le> \<bar>d * 1000\<bar> \<longrightarrow>
              ms = (if 0 < d then PosInf else NegInf))
        \<and> (duration (sampleObjects u 2) = NaN \<longrightarrow> ms = NaN)"
    and trace: "\<And>ok ok'.
        timers (fire_timer (length (timers demo_world)) ok ?w') =
          timers demo_world @ [\<lparr>callback = StopSound 1,
            delay = num_times (duration (sampleObjects demo_world 2)) (Fin 1000)\<rparr>]
        \<and> paused (heap (fire_timer (length (timers demo_world)) ok ?w') ! 1) = (\<not> ok)
        \<and> timers (fire_timer (length (timers demo_world)) ok'
             (fire_timer (length (timers demo_world)) ok ?w')) = timers demo_world
        \<and> paused (heap (fire_timer (length (timers demo_world)) ok'
             (fire_timer (length (timers demo_world)) ok ?w')) ! 1)
        \<and> currentTime (heap (fire_timer (length (timers demo_world)) ok'
             (fire_timer (length (timers demo_world)) ok ?w')) ! 1) = Fin 0"
    by auto
  from fact trace [of True True] t d ms
  have direct:
    "timers ?w' = [\<lparr>callback = StartSample 1 ''a'' 2, delay = Fin 0\<rparr>]
     \<and> timers (fire_timer 0 True ?w') = [\<lparr>callback = StopSound 1, delay = Fin 5000\<rparr>]
     \<and> paused (heap (fire_timer 0 True ?w') ! 1) = False
     \<and> timers (fire_timer 0 True (fire_timer 0 True ?w')) = []
     \<and> paused (heap (fire_timer 0 True (fire_timer 0 True ?w')) ! 1)
     \<and> currentTime (heap (fire_timer 0 True (fire_timer 0 True ?w')) ! 1) = Fin 0"
    by simp
  from start [of True ?u1] u ms1
  have rounded: "timers (run_callback (StartSample 1 ''a'' 2) True ?u1)
      = [\<lparr>callback = StopSound 1, delay = Fin (1001 - 1 / 2 ^ 43)\<rparr>]"
    by auto
  from start [of True ?u2] u big
  have overflow: "timers (run_callback (StartSample 1 ''a'' 2) True ?u2)
      = [\<lparr>callback = StopSound 1, delay = PosInf\<rparr>]"
    by auto
  from start [of True ?u3] u
  have nan: "timers (run_callback (StartSample 1 ''a'' 2) True ?u3)
      = [\<lparr>callback = StopSound 1, delay = NaN\<rparr>]"
    by auto
  from sample_stop_follows_start [OF disjI2 [OF conjI [OF reg rcall]]] sel t d ms
  have registered:
    "timers (fire_timer 0 False ?v') = [\<lparr>callback = StopSound 1, delay = Fin 5000\<rparr>]"
    by auto
  from call sel direct rounded overflow nan reg rcall registered show ?thesis
    by blast
qed

end
